theory Spec2Isabelle
  imports Complex_Main
begin

section \<open>Data model (src/db/tables.ts)\<close>

text \<open>
  A \<open>column.date\<close> value is a point in time, kept as milliseconds since the epoch.
  A \<open>column.number\<close> value is a finite JavaScript number; no handler computes with it
  (\<open>pageCount\<close> is only stored and returned), so it is carried as a real. A page number
  has passed \<open>z.number().int()\<close> and is an integer; neither schema bounds the magnitude.
  An optional column holds NULL (\<open>None\<close>) or a value.
\<close>

type_synonym Date = int
type_synonym number = real

record PdfDocument =
  doc_id :: string
  doc_userId :: string
  doc_title :: "string option"
  doc_sourceType :: "string option"
  doc_sourceUrl :: "string option"
  doc_pageCount :: "number option"
  doc_lastOpenedAt :: "Date option"
  doc_createdAt :: Date
  doc_updatedAt :: Date

record PdfPage =
  page_id :: string
  page_documentId :: string
  page_pageNumber :: int
  page_textContent :: "string option"
  page_createdAt :: Date

record PdfAnnotation =
  ann_id :: string
  ann_documentId :: string
  ann_pageId :: "string option"
  ann_userId :: string
  ann_annotationType :: "string option"
  ann_selectionJson :: "string option"
  ann_comment :: "string option"
  ann_color :: "string option"
  ann_createdAt :: Date
  ann_updatedAt :: Date

text \<open>
  The store behind the \<open>db\<close> handle: the three tables, each a list of rows in the
  store's iteration order. \<open>foreign_keys\<close> says whether the store enforces the
  \<open>references\<close> declared in tables.ts (the source does not fix it; every result below
  holds for both values).
\<close>

record db =
  PdfDocuments :: "PdfDocument list"
  PdfPages :: "PdfPage list"
  PdfAnnotations :: "PdfAnnotation list"
  foreign_keys :: bool

text \<open>
  A number column is an integer column of the store. A written number that is a whole
  number of magnitude below \<open>2^63\<close> is kept as a 64-bit integer, any other as a float. The
  store's client reads result rows back as JavaScript numbers and throws on an integer
  outside the safe range, that is of magnitude \<open>2^53\<close> or more. So a stored number can be
  read back unless it is a whole number with \<open>2^53 \<le> |n| < 2^63\<close>; a row can be read back
  when its number column can (annotations have none).
\<close>

definition is_integer :: "number \<Rightarrow> bool" where
  "is_integer n \<longleftrightarrow> of_int \<lfloor>n\<rfloor> = n"

definition readable_number :: "number \<Rightarrow> bool" where
  "readable_number n \<longleftrightarrow> \<not> (is_integer n \<and> 2 ^ 53 \<le> \<bar>n\<bar> \<and> \<bar>n\<bar> < 2 ^ 63)"

definition readable_document :: "PdfDocument \<Rightarrow> bool" where
  "readable_document d = (case doc_pageCount d of None \<Rightarrow> True | Some n \<Rightarrow> readable_number n)"

definition readable_page :: "PdfPage \<Rightarrow> bool" where
  "readable_page p \<longleftrightarrow> readable_number (of_int (page_pageNumber p))"

definition readable_annotation :: "PdfAnnotation \<Rightarrow> bool" where
  "readable_annotation a \<longleftrightarrow> True"

text \<open>Each table declares \<open>id\<close> as its primary key: no two rows of a table share an id.\<close>

definition primary_keys :: "db \<Rightarrow> bool" where
  "primary_keys s \<longleftrightarrow>
     distinct (map doc_id (PdfDocuments s)) \<and>
     distinct (map page_id (PdfPages s)) \<and>
     distinct (map ann_id (PdfAnnotations s))"

section \<open>Store operations (astro:db)\<close>

text \<open>
  The client decodes the rows a statement returns: it throws (\<open>None\<close>) when one of them
  cannot be read back. Rows the statement does not return are not decoded.
\<close>

definition read_rows :: "('r \<Rightarrow> bool) \<Rightarrow> 'r list \<Rightarrow> 'r list option" where
  "read_rows readable rows = (if list_all readable rows then Some rows else None)"

text \<open>
  \<open>db.select().from(T).where(p)\<close>: the rows satisfying \<open>p\<close>, in table order, decoded by
  the client.
\<close>

definition db_select :: "('r \<Rightarrow> bool) \<Rightarrow> ('r \<Rightarrow> bool) \<Rightarrow> 'r list \<Rightarrow> 'r list option" where
  "db_select readable wh rows = read_rows readable (filter wh rows)"

text \<open>The destructuring \<open>const [x] = rows\<close>: the first row, or undefined.\<close>

definition first_row :: "'r list \<Rightarrow> 'r option" where
  "first_row rows = (case rows of [] \<Rightarrow> None | r # _ \<Rightarrow> Some r)"

text \<open>
  A reference is satisfied when the store does not enforce references or the key is among
  the referenced table's ids; a NULL reference is always satisfied.
\<close>

definition references_ok :: "db \<Rightarrow> string \<Rightarrow> string list \<Rightarrow> bool" where
  "references_ok s k ids \<longleftrightarrow> \<not> foreign_keys s \<or> k \<in> set ids"

definition references_opt_ok :: "db \<Rightarrow> string option \<Rightarrow> string list \<Rightarrow> bool" where
  "references_opt_ok s k ids = (case k of None \<Rightarrow> True | Some v \<Rightarrow> references_ok s v ids)"

text \<open>
  \<open>db.insert(T).values(row).returning()\<close>: rejected (\<open>None\<close>, nothing written) when the
  primary key is taken or a reference is violated. Otherwise the row is appended, and the
  client then decodes the returned row: the second component is \<open>None\<close> when that throws,
  with the row already written.
\<close>

definition db_insert ::
  "('r \<Rightarrow> string) \<Rightarrow> bool \<Rightarrow> ('r \<Rightarrow> bool) \<Rightarrow> 'r \<Rightarrow> 'r list \<Rightarrow>
     ('r list \<times> 'r list option) option" where
  "db_insert key refs readable row rows =
     (if key row \<in> set (map key rows) \<or> \<not> refs then None
      else Some (rows @ [row], read_rows readable [row]))"

text \<open>
  \<open>db.update(T).set(patch).where(p).returning()\<close>: rejected (\<open>None\<close>, nothing written)
  when a row would be patched into a violated reference. Otherwise every row satisfying
  \<open>p\<close> is patched in place, and the client then decodes the patched rows: the second
  component is \<open>None\<close> when that throws, with the rows already written.
\<close>

definition db_update ::
  "bool \<Rightarrow> ('r \<Rightarrow> bool) \<Rightarrow> ('r \<Rightarrow> 'r) \<Rightarrow> ('r \<Rightarrow> bool) \<Rightarrow> 'r list \<Rightarrow>
     ('r list \<times> 'r list option) option" where
  "db_update refs readable patch wh rows =
     (if filter wh rows \<noteq> [] \<and> \<not> refs then None
      else Some (map (\<lambda>r. if wh r then patch r else r) rows,
                 read_rows readable (map patch (filter wh rows))))"

text \<open>
  \<open>db.delete(T).where(p)\<close>: the remaining rows and \<open>rowsAffected\<close>; no row is returned, so
  none is decoded.
\<close>

definition db_delete :: "('r \<Rightarrow> bool) \<Rightarrow> 'r list \<Rightarrow> 'r list \<times> nat" where
  "db_delete wh rows = (filter (\<lambda>r. \<not> wh r) rows, length (filter wh rows))"

section \<open>Failures and the request context\<close>

text \<open>
  A request fails in one of three ways: the handler throws an \<open>ActionError\<close> with a code
  and a message; the input does not pass the action's schema, and the framework raises its
  input error before the handler runs; or the store rejects a statement or its client
  throws on a result (anything thrown that is no \<open>ActionError\<close> reaches the caller as an
  unclassified internal error).
\<close>

datatype ActionErrorCode = UNAUTHORIZED | NOT_FOUND

datatype failure =
    ActionError ActionErrorCode string
  | ActionInputError
  | StoreError

record User =
  user_id :: string

record Locals =
  user :: "User option"

record ActionAPIContext =
  locals :: "Locals option"

type_synonym 'a outcome = "(failure + 'a) \<times> db"

record 'r listing =
  items :: "'r list"
  total :: nat

section \<open>Ownership guard (src/unnamed/part_000, lines 5-51)\<close>

definition requireUser :: "ActionAPIContext \<Rightarrow> failure + User" where
  "requireUser context =
     (case (case locals context of None \<Rightarrow> None | Some l \<Rightarrow> user l) of
        None \<Rightarrow> Inl (ActionError UNAUTHORIZED ''You must be signed in to perform this action.'')
      | Some u \<Rightarrow> Inr u)"

definition getOwnedDocument :: "string \<Rightarrow> string \<Rightarrow> db \<Rightarrow> failure + PdfDocument" where
  "getOwnedDocument documentId userId s =
     (case db_select readable_document (\<lambda>d. doc_id d = documentId \<and> doc_userId d = userId)
             (PdfDocuments s) of
        None \<Rightarrow> Inl StoreError
      | Some rows \<Rightarrow>
          (case first_row rows of
             None \<Rightarrow> Inl (ActionError NOT_FOUND ''PDF document not found.'')
           | Some doc \<Rightarrow> Inr doc))"

definition getOwnedPage :: "string \<Rightarrow> string \<Rightarrow> string \<Rightarrow> db \<Rightarrow> failure + PdfPage" where
  "getOwnedPage pageId documentId userId s =
     (case getOwnedDocument documentId userId s of
        Inl e \<Rightarrow> Inl e
      | Inr _ \<Rightarrow>
          (case db_select readable_page (\<lambda>p. page_id p = pageId \<and> page_documentId p = documentId)
                  (PdfPages s) of
             None \<Rightarrow> Inl StoreError
           | Some rows \<Rightarrow>
               (case first_row rows of
                  None \<Rightarrow> Inl (ActionError NOT_FOUND ''PDF page not found.'')
                | Some page \<Rightarrow> Inr page)))"

section \<open>Action inputs and their schemas\<close>

text \<open>
  An optional schema field is \<open>None\<close> when the caller left it undefined.
  \<open>z.string().min(1)\<close> is a non-empty string; the \<open>refine\<close> of the two update actions
  asks for at least one patch field.
\<close>

record createDocumentInput =
  cd_title :: "string option"
  cd_sourceType :: "string option"
  cd_sourceUrl :: "string option"
  cd_pageCount :: "number option"
  cd_lastOpenedAt :: "Date option"

record updateDocumentInput =
  ud_id :: string
  ud_title :: "string option"
  ud_sourceType :: "string option"
  ud_sourceUrl :: "string option"
  ud_pageCount :: "number option"
  ud_lastOpenedAt :: "Date option"

record createPageInput =
  cp_documentId :: string
  cp_pageNumber :: int
  cp_textContent :: "string option"

record createAnnotationInput =
  ca_documentId :: string
  ca_pageId :: "string option"
  ca_annotationType :: "string option"
  ca_selectionJson :: "string option"
  ca_comment :: "string option"
  ca_color :: "string option"

record updateAnnotationInput =
  ua_id :: string
  ua_documentId :: string
  ua_pageId :: "string option"
  ua_annotationType :: "string option"
  ua_selectionJson :: "string option"
  ua_comment :: "string option"
  ua_color :: "string option"

record deleteAnnotationInput =
  da_id :: string
  da_documentId :: string

definition updateDocument_schema :: "updateDocumentInput \<Rightarrow> bool" where
  "updateDocument_schema input \<longleftrightarrow>
     ud_id input \<noteq> [] \<and>
     (ud_title input \<noteq> None \<or> ud_sourceType input \<noteq> None \<or> ud_sourceUrl input \<noteq> None \<or>
      ud_pageCount input \<noteq> None \<or> ud_lastOpenedAt input \<noteq> None)"

definition createPage_schema :: "createPageInput \<Rightarrow> bool" where
  "createPage_schema input \<longleftrightarrow> cp_documentId input \<noteq> [] \<and> 1 \<le> cp_pageNumber input"

definition documentId_schema :: "string \<Rightarrow> bool" where
  "documentId_schema documentId \<longleftrightarrow> documentId \<noteq> []"

definition createAnnotation_schema :: "createAnnotationInput \<Rightarrow> bool" where
  "createAnnotation_schema input \<longleftrightarrow> ca_documentId input \<noteq> []"

definition updateAnnotation_schema :: "updateAnnotationInput \<Rightarrow> bool" where
  "updateAnnotation_schema input \<longleftrightarrow>
     ua_id input \<noteq> [] \<and> ua_documentId input \<noteq> [] \<and>
     (ua_pageId input \<noteq> None \<or> ua_annotationType input \<noteq> None \<or>
      ua_selectionJson input \<noteq> None \<or> ua_comment input \<noteq> None \<or> ua_color input \<noteq> None)"

definition deleteAnnotation_schema :: "deleteAnnotationInput \<Rightarrow> bool" where
  "deleteAnnotation_schema input \<longleftrightarrow> da_id input \<noteq> [] \<and> da_documentId input \<noteq> []"

text \<open>
  One entry of a sparse \<open>set\<close> object, \<open>...(v !== undefined ? { f: v } : {})\<close>: a supplied
  value replaces the column, an undefined one leaves it.
\<close>

definition patch_field :: "'a option \<Rightarrow> 'a option \<Rightarrow> 'a option" where
  "patch_field v old = (case v of None \<Rightarrow> old | Some x \<Rightarrow> Some x)"

text \<open>
  JavaScript truthiness of a string: not empty. An awaited call whose value is discarded
  matters only through what it throws.
\<close>

definition truthy :: "string \<Rightarrow> bool" where
  "truthy x \<longleftrightarrow> x \<noteq> []"

definition thrown :: "failure + 'a \<Rightarrow> failure option" where
  "thrown r = (case r of Inl e \<Rightarrow> Some e | Inr _ \<Rightarrow> None)"

section \<open>Document actions (lines 54-137)\<close>

text \<open>
  Every action takes the request context, what the environment supplies during the call
  (\<open>crypto.randomUUID()\<close> as \<open>uuid\<close>, \<open>new Date()\<close> as \<open>now\<close>), its input and the store, and
  returns the outcome with the store after the call. The success envelope
  \<open>{ success: true, data }\<close> is \<open>Inr data\<close>.
\<close>

definition createDocument ::
  "ActionAPIContext \<Rightarrow> string \<Rightarrow> Date \<Rightarrow> createDocumentInput \<Rightarrow> db \<Rightarrow> PdfDocument option outcome" where
  "createDocument context uuid now input s =
     (case requireUser context of
        Inl e \<Rightarrow> (Inl e, s)
      | Inr u \<Rightarrow>
          (case db_insert doc_id True readable_document
                  \<lparr>doc_id = uuid, doc_userId = user_id u, doc_title = cd_title input,
                   doc_sourceType = cd_sourceType input, doc_sourceUrl = cd_sourceUrl input,
                   doc_pageCount = cd_pageCount input, doc_lastOpenedAt = cd_lastOpenedAt input,
                   doc_createdAt = now, doc_updatedAt = now\<rparr>
                  (PdfDocuments s) of
             None \<Rightarrow> (Inl StoreError, s)
           | Some (rows, None) \<Rightarrow> (Inl StoreError, s\<lparr>PdfDocuments := rows\<rparr>)
           | Some (rows, Some returning) \<Rightarrow>
               (Inr (first_row returning), s\<lparr>PdfDocuments := rows\<rparr>)))"

text \<open>The \<open>set\<close> object of updateDocument (lines 110-117), applied to a row.\<close>

definition updateDocument_set :: "Date \<Rightarrow> updateDocumentInput \<Rightarrow> PdfDocument \<Rightarrow> PdfDocument" where
  "updateDocument_set now input d =
     d\<lparr>doc_title := patch_field (ud_title input) (doc_title d),
       doc_sourceType := patch_field (ud_sourceType input) (doc_sourceType d),
       doc_sourceUrl := patch_field (ud_sourceUrl input) (doc_sourceUrl d),
       doc_pageCount := patch_field (ud_pageCount input) (doc_pageCount d),
       doc_lastOpenedAt := patch_field (ud_lastOpenedAt input) (doc_lastOpenedAt d),
       doc_updatedAt := now\<rparr>"

definition updateDocument ::
  "ActionAPIContext \<Rightarrow> Date \<Rightarrow> updateDocumentInput \<Rightarrow> db \<Rightarrow> PdfDocument option outcome" where
  "updateDocument context now input s =
     (if \<not> updateDocument_schema input then (Inl ActionInputError, s)
      else case requireUser context of
        Inl e \<Rightarrow> (Inl e, s)
      | Inr u \<Rightarrow>
          (case getOwnedDocument (ud_id input) (user_id u) s of
             Inl e \<Rightarrow> (Inl e, s)
           | Inr _ \<Rightarrow>
               (case db_update True readable_document (updateDocument_set now input)
                       (\<lambda>d. doc_id d = ud_id input)
                       (PdfDocuments s) of
                  None \<Rightarrow> (Inl StoreError, s)
                | Some (rows, None) \<Rightarrow> (Inl StoreError, s\<lparr>PdfDocuments := rows\<rparr>)
                | Some (rows, Some returning) \<Rightarrow>
                    (Inr (first_row returning), s\<lparr>PdfDocuments := rows\<rparr>))))"


section \<open>Page actions (lines 139-179)\<close>

definition createPage ::
  "ActionAPIContext \<Rightarrow> string \<Rightarrow> Date \<Rightarrow> createPageInput \<Rightarrow> db \<Rightarrow> PdfPage option outcome" where
  "createPage context uuid now input s =
     (if \<not> createPage_schema input then (Inl ActionInputError, s)
      else case requireUser context of
        Inl e \<Rightarrow> (Inl e, s)
      | Inr u \<Rightarrow>
          (case getOwnedDocument (cp_documentId input) (user_id u) s of
             Inl e \<Rightarrow> (Inl e, s)
           | Inr _ \<Rightarrow>
               (case db_insert page_id
                       (references_ok s (cp_documentId input) (map doc_id (PdfDocuments s)))
                       readable_page
                       \<lparr>page_id = uuid, page_documentId = cp_documentId input,
                        page_pageNumber = cp_pageNumber input,
                        page_textContent = cp_textContent input, page_createdAt = now\<rparr>
                       (PdfPages s) of
                  None \<Rightarrow> (Inl StoreError, s)
                | Some (rows, None) \<Rightarrow> (Inl StoreError, s\<lparr>PdfPages := rows\<rparr>)
                | Some (rows, Some returning) \<Rightarrow>
                    (Inr (first_row returning), s\<lparr>PdfPages := rows\<rparr>))))"

definition listPages :: "ActionAPIContext \<Rightarrow> string \<Rightarrow> db \<Rightarrow> PdfPage listing outcome" where
  "listPages context documentId s =
     (if \<not> documentId_schema documentId then (Inl ActionInputError, s)
      else case requireUser context of
        Inl e \<Rightarrow> (Inl e, s)
      | Inr u \<Rightarrow>
          (case getOwnedDocument documentId (user_id u) s of
             Inl e \<Rightarrow> (Inl e, s)
           | Inr _ \<Rightarrow>
               (case db_select readable_page (\<lambda>p. page_documentId p = documentId)
                       (PdfPages s) of
                  None \<Rightarrow> (Inl StoreError, s)
                | Some pages \<Rightarrow> (Inr \<lparr>items = pages, total = length pages\<rparr>, s))))"

section \<open>Annotation actions (lines 181-315)\<close>

definition createAnnotation ::
  "ActionAPIContext \<Rightarrow> string \<Rightarrow> Date \<Rightarrow> createAnnotationInput \<Rightarrow> db \<Rightarrow> PdfAnnotation option outcome" where
  "createAnnotation context uuid now input s =
     (if \<not> createAnnotation_schema input then (Inl ActionInputError, s)
      else case requireUser context of
        Inl e \<Rightarrow> (Inl e, s)
      | Inr u \<Rightarrow>
          (case getOwnedDocument (ca_documentId input) (user_id u) s of
             Inl e \<Rightarrow> (Inl e, s)
           | Inr _ \<Rightarrow>
               (case (case ca_pageId input of
                        None \<Rightarrow> None
                      | Some pageId \<Rightarrow>
                          if truthy pageId
                          then thrown (getOwnedPage pageId (ca_documentId input) (user_id u) s)
                          else None) of
                  Some e \<Rightarrow> (Inl e, s)
                | None \<Rightarrow>
                    (case db_insert ann_id
                            (references_ok s (ca_documentId input) (map doc_id (PdfDocuments s)) \<and>
                             references_opt_ok s (ca_pageId input) (map page_id (PdfPages s)))
                            readable_annotation
                            \<lparr>ann_id = uuid, ann_documentId = ca_documentId input,
                             ann_pageId = ca_pageId input, ann_userId = user_id u,
                             ann_annotationType = ca_annotationType input,
                             ann_selectionJson = ca_selectionJson input,
                             ann_comment = ca_comment input, ann_color = ca_color input,
                             ann_createdAt = now, ann_updatedAt = now\<rparr>
                            (PdfAnnotations s) of
                       None \<Rightarrow> (Inl StoreError, s)
                     | Some (rows, None) \<Rightarrow> (Inl StoreError, s\<lparr>PdfAnnotations := rows\<rparr>)
                     | Some (rows, Some returning) \<Rightarrow>
                         (Inr (first_row returning), s\<lparr>PdfAnnotations := rows\<rparr>)))))"

text \<open>The \<open>set\<close> object of updateAnnotation (lines 261-268), applied to a row.\<close>

definition updateAnnotation_set ::
  "Date \<Rightarrow> updateAnnotationInput \<Rightarrow> PdfAnnotation \<Rightarrow> PdfAnnotation" where
  "updateAnnotation_set now input a =
     a\<lparr>ann_pageId := patch_field (ua_pageId input) (ann_pageId a),
       ann_annotationType := patch_field (ua_annotationType input) (ann_annotationType a),
       ann_selectionJson := patch_field (ua_selectionJson input) (ann_selectionJson a),
       ann_comment := patch_field (ua_comment input) (ann_comment a),
       ann_color := patch_field (ua_color input) (ann_color a),
       ann_updatedAt := now\<rparr>"

definition updateAnnotation ::
  "ActionAPIContext \<Rightarrow> Date \<Rightarrow> updateAnnotationInput \<Rightarrow> db \<Rightarrow> PdfAnnotation option outcome" where
  "updateAnnotation context now input s =
     (if \<not> updateAnnotation_schema input then (Inl ActionInputError, s)
      else case requireUser context of
        Inl e \<Rightarrow> (Inl e, s)
      | Inr u \<Rightarrow>
          (case getOwnedDocument (ua_documentId input) (user_id u) s of
             Inl e \<Rightarrow> (Inl e, s)
           | Inr _ \<Rightarrow>
               (case (case ua_pageId input of
                        None \<Rightarrow> None
                      | Some pageId \<Rightarrow>
                          thrown (getOwnedPage pageId (ua_documentId input) (user_id u) s)) of
                  Some e \<Rightarrow> (Inl e, s)
                | None \<Rightarrow>
                    (case db_select readable_annotation
                            (\<lambda>a. ann_id a = ua_id input \<and> ann_documentId a = ua_documentId input)
                            (PdfAnnotations s) of
                       None \<Rightarrow> (Inl StoreError, s)
                     | Some found \<Rightarrow>
                         (case first_row found of
                            None \<Rightarrow> (Inl (ActionError NOT_FOUND ''Annotation not found.''), s)
                          | Some existing \<Rightarrow>
                              (case db_update
                                      (references_opt_ok s (ua_pageId input)
                                         (map page_id (PdfPages s)))
                                      readable_annotation
                                      (updateAnnotation_set now input)
                                      (\<lambda>a. ann_id a = ua_id input)
                                      (PdfAnnotations s) of
                                 None \<Rightarrow> (Inl StoreError, s)
                               | Some (rows, None) \<Rightarrow>
                                   (Inl StoreError, s\<lparr>PdfAnnotations := rows\<rparr>)
                               | Some (rows, Some returning) \<Rightarrow>
                                   (Inr (first_row returning),
                                    s\<lparr>PdfAnnotations := rows\<rparr>)))))))"

definition deleteAnnotation ::
  "ActionAPIContext \<Rightarrow> deleteAnnotationInput \<Rightarrow> db \<Rightarrow> unit outcome" where
  "deleteAnnotation context input s =
     (if \<not> deleteAnnotation_schema input then (Inl ActionInputError, s)
      else case requireUser context of
        Inl e \<Rightarrow> (Inl e, s)
      | Inr u \<Rightarrow>
          (case getOwnedDocument (da_documentId input) (user_id u) s of
             Inl e \<Rightarrow> (Inl e, s)
           | Inr _ \<Rightarrow>
               (case db_delete (\<lambda>a. ann_id a = da_id input \<and>
                                     ann_documentId a = da_documentId input)
                       (PdfAnnotations s) of
                  (rows, rowsAffected) \<Rightarrow>
                    if rowsAffected = 0
                    then (Inl (ActionError NOT_FOUND ''Annotation not found.''),
                          s\<lparr>PdfAnnotations := rows\<rparr>)
                    else (Inr (), s\<lparr>PdfAnnotations := rows\<rparr>))))"

definition listAnnotations ::
  "ActionAPIContext \<Rightarrow> string \<Rightarrow> db \<Rightarrow> PdfAnnotation listing outcome" where
  "listAnnotations context documentId s =
     (if \<not> documentId_schema documentId then (Inl ActionInputError, s)
      else case requireUser context of
        Inl e \<Rightarrow> (Inl e, s)
      | Inr u \<Rightarrow>
          (case getOwnedDocument documentId (user_id u) s of
             Inl e \<Rightarrow> (Inl e, s)
           | Inr _ \<Rightarrow>
               (case db_select readable_annotation (\<lambda>a. ann_documentId a = documentId)
                       (PdfAnnotations s) of
                  None \<Rightarrow> (Inl StoreError, s)
                | Some annotations \<Rightarrow>
                    (Inr \<lparr>items = annotations, total = length annotations\<rparr>, s))))"

section \<open>A sample store\<close>

text \<open>
  Two users, each owning one document with one page. Document \<open>d1\<close> of user \<open>u1\<close>
  carries an annotation by its owner and one whose author column names \<open>u2\<close>.
\<close>

definition signed_in :: "string \<Rightarrow> ActionAPIContext" where
  "signed_in uid = \<lparr>locals = Some \<lparr>user = Some \<lparr>user_id = uid\<rparr>\<rparr>\<rparr>"

definition signed_out :: ActionAPIContext where
  "signed_out = \<lparr>locals = Some \<lparr>user = None\<rparr>\<rparr>"

definition sample_documents :: "PdfDocument list" where
  "sample_documents =
     [\<lparr>doc_id = ''d1'', doc_userId = ''u1'', doc_title = Some ''Thesis'', doc_sourceType = None,
       doc_sourceUrl = None, doc_pageCount = Some 2, doc_lastOpenedAt = None,
       doc_createdAt = 100, doc_updatedAt = 100\<rparr>,
      \<lparr>doc_id = ''d2'', doc_userId = ''u2'', doc_title = None, doc_sourceType = Some ''url'',
       doc_sourceUrl = None, doc_pageCount = None, doc_lastOpenedAt = None,
       doc_createdAt = 110, doc_updatedAt = 110\<rparr>]"

definition sample_pages :: "PdfPage list" where
  "sample_pages =
     [\<lparr>page_id = ''p1'', page_documentId = ''d1'', page_pageNumber = 1,
       page_textContent = Some ''Intro'', page_createdAt = 120\<rparr>,
      \<lparr>page_id = ''p2'', page_documentId = ''d2'', page_pageNumber = 1,
       page_textContent = None, page_createdAt = 130\<rparr>]"

definition sample_annotations :: "PdfAnnotation list" where
  "sample_annotations =
     [\<lparr>ann_id = ''a1'', ann_documentId = ''d1'', ann_pageId = Some ''p1'', ann_userId = ''u1'',
       ann_annotationType = Some ''note'', ann_selectionJson = Some ''{}'',
       ann_comment = Some ''old'', ann_color = Some ''red'',
       ann_createdAt = 140, ann_updatedAt = 140\<rparr>,
      \<lparr>ann_id = ''a2'', ann_documentId = ''d1'', ann_pageId = None, ann_userId = ''u2'',
       ann_annotationType = None, ann_selectionJson = None,
       ann_comment = None, ann_color = None,
       ann_createdAt = 150, ann_updatedAt = 150\<rparr>,
      \<lparr>ann_id = ''a3'', ann_documentId = ''d2'', ann_pageId = Some ''p2'', ann_userId = ''u2'',
       ann_annotationType = None, ann_selectionJson = None,
       ann_comment = None, ann_color = None,
       ann_createdAt = 160, ann_updatedAt = 160\<rparr>]"

definition sample_db :: "bool \<Rightarrow> db" where
  "sample_db fk =
     \<lparr>PdfDocuments = sample_documents, PdfPages = sample_pages,
      PdfAnnotations = sample_annotations, foreign_keys = fk\<rparr>"

text \<open>
  The rows that a create with the schema-valid number \<open>2^53\<close> writes: user \<open>u1\<close> creates
  document \<open>d3\<close> with that \<open>pageCount\<close>, or page \<open>p3\<close> of document \<open>d1\<close> with that
  \<open>pageNumber\<close>.
\<close>

definition unreadable_document :: PdfDocument where
  "unreadable_document =
     \<lparr>doc_id = ''d3'', doc_userId = ''u1'', doc_title = None, doc_sourceType = None,
      doc_sourceUrl = None, doc_pageCount = Some (2 ^ 53), doc_lastOpenedAt = None,
      doc_createdAt = 700, doc_updatedAt = 700\<rparr>"

definition unreadable_page :: PdfPage where
  "unreadable_page =
     \<lparr>page_id = ''p3'', page_documentId = ''d1'', page_pageNumber = 2 ^ 53,
      page_textContent = None, page_createdAt = 700\<rparr>"

section \<open>Facts about lists and the store operations\<close>

lemma first_row_filter_None: "first_row (filter P xs) = None \<longleftrightarrow> (\<forall>x\<in>set xs. \<not> P x)"
proof (cases "filter P xs")
  case Nil
  then show ?thesis by (simp add: first_row_def filter_empty_conv)
next
  case (Cons y ys)
  then have "y \<in> set (filter P xs)" by simp
  then have "y \<in> set xs \<and> P y" by simp
  with Cons show ?thesis by (auto simp: first_row_def)
qed

lemma first_row_filter_Some: "first_row (filter P xs) = Some x \<Longrightarrow> x \<in> set xs \<and> P x"
proof -
  assume "first_row (filter P xs) = Some x"
  then obtain ys where "filter P xs = x # ys"
    by (auto simp: first_row_def split: list.splits)
  then have "x \<in> set (filter P xs)" by simp
  then show ?thesis by simp
qed

lemma distinct_key_unique:
  assumes "distinct (map key rows)" "x \<in> set rows" "y \<in> set rows" "key x = key y"
  shows "x = y"
  using assms by (meson distinct_map inj_onD)

lemma filter_key_singleton:
  assumes "distinct (map key rows)" "x \<in> set rows"
  shows "filter (\<lambda>y. key y = key x) rows = [x]"
  using assms
proof (induction rows)
  case Nil
  then show ?case by simp
next
  case (Cons r rows)
  show ?case
  proof (cases "r = x")
    case True
    with Cons.prems have "key x \<notin> key ` set rows" by simp
    then have "\<forall>y\<in>set rows. key y \<noteq> key x" by (metis image_eqI)
    then have "filter (\<lambda>y. key y = key x) rows = []" by (simp add: filter_empty_conv)
    with True show ?thesis by simp
  next
    case False
    with Cons.prems have x: "x \<in> set rows" and "key r \<noteq> key x" by auto
    with Cons.IH Cons.prems show ?thesis by simp
  qed
qed

lemma map_key_only:
  assumes "distinct (map key rows)" "x \<in> set rows"
  shows "map (\<lambda>y. if key y = key x then f y else y) rows =
         map (\<lambda>y. if y = x then f x else y) rows"
proof (rule map_cong [OF refl])
  fix y assume "y \<in> set rows"
  with assms have "key y = key x \<longleftrightarrow> y = x"
    by (auto dest: distinct_key_unique)
  then show "(if key y = key x then f y else y) = (if y = x then f x else y)" by auto
qed

lemma map_column_kept:
  assumes "f (g a) = f a"
  shows "map f (map (\<lambda>x. if x = a then g a else x) rows) = map f rows"
  by (induction rows) (simp_all add: assms)

lemma filter_not_empty_conv: "filter (\<lambda>r. \<not> P r) rows = rows \<longleftrightarrow> filter P rows = []"
  by (simp add: filter_empty_conv filter_id_conv)

lemma filter_twice_empty: "filter P (filter (\<lambda>r. \<not> P r) rows) = []"
  by (simp add: filter_empty_conv)

lemma read_rows_Some:
  "read_rows readable rows = Some rs \<longleftrightarrow> list_all readable rows \<and> rs = rows"
  by (auto simp: read_rows_def)

lemma read_rows_None: "read_rows readable rows = None \<longleftrightarrow> \<not> list_all readable rows"
  by (simp add: read_rows_def)

lemma read_rows_Nil [simp]: "read_rows readable [] = Some []"
  by (simp add: read_rows_def)

lemma read_rows_annotations [simp]: "read_rows readable_annotation rows = Some rows"
  by (simp add: read_rows_def readable_annotation_def list_all_iff)

lemma db_select_Some:
  "db_select readable wh rows = Some rs \<longleftrightarrow>
     list_all readable (filter wh rows) \<and> rs = filter wh rows"
  by (simp add: db_select_def read_rows_Some)

lemma db_select_annotations [simp]:
  "db_select readable_annotation wh rows = Some (filter wh rows)"
  by (simp add: db_select_def)

lemma db_select_no_match:
  assumes "\<forall>r\<in>set rows. \<not> wh r"
  shows "db_select readable wh rows = Some []"
proof -
  from assms have "filter wh rows = []" by (simp add: filter_empty_conv)
  then show ?thesis by (simp add: db_select_def)
qed

lemma db_insert_Some:
  "db_insert key refs readable row rows = Some (rows', returning) \<longleftrightarrow>
     key row \<notin> key ` set rows \<and> refs \<and> rows' = rows @ [row] \<and>
     returning = read_rows readable [row]"
  by (auto simp: db_insert_def)

lemma db_insert_keys:
  assumes "distinct (map key rows)"
    "db_insert key refs readable row rows = Some (rows', returning)"
  shows "distinct (map key rows')"
  using assms by (auto simp: db_insert_def split: if_splits)

lemma db_update_keys:
  assumes "\<And>r. key (patch r) = key r"
    and "db_update refs readable patch wh rows = Some (rows', returning)"
  shows "map key rows' = map key rows"
proof -
  from assms(2) have "rows' = map (\<lambda>r. if wh r then patch r else r) rows"
    by (simp add: db_update_def split: if_splits)
  then show ?thesis by (simp add: assms(1) cong: map_cong)
qed

section \<open>The guard\<close>

lemma requireUser_signed_in: "requireUser (signed_in uid) = Inr \<lparr>user_id = uid\<rparr>"
  by (simp add: requireUser_def signed_in_def)

lemma requireUser_signed_out:
  "requireUser signed_out = Inl (ActionError UNAUTHORIZED ''You must be signed in to perform this action.'')"
  by (simp add: requireUser_def signed_out_def)

lemma getOwnedDocument_Inr:
  "getOwnedDocument documentId userId s = Inr doc \<Longrightarrow>
     doc \<in> set (PdfDocuments s) \<and> doc_id doc = documentId \<and> doc_userId doc = userId"
  by (auto simp: getOwnedDocument_def db_select_Some split: option.splits
           dest: first_row_filter_Some)

lemma getOwnedDocument_no_match:
  assumes "\<forall>d\<in>set (PdfDocuments s). \<not> (doc_id d = documentId \<and> doc_userId d = userId)"
  shows "getOwnedDocument documentId userId s = Inl (ActionError NOT_FOUND ''PDF document not found.'')"
  by (simp add: getOwnedDocument_def db_select_no_match [OF assms] first_row_def)

lemma getOwnedDocument_absent:
  assumes "documentId \<notin> doc_id ` set (PdfDocuments s)"
  shows "getOwnedDocument documentId userId s = Inl (ActionError NOT_FOUND ''PDF document not found.'')"
  using assms by (intro getOwnedDocument_no_match) auto

lemma getOwnedDocument_foreign:
  assumes "primary_keys s" "d \<in> set (PdfDocuments s)" "doc_id d = documentId"
    "doc_userId d \<noteq> userId"
  shows "getOwnedDocument documentId userId s = Inl (ActionError NOT_FOUND ''PDF document not found.'')"
proof -
  from assms(1) have dist: "distinct (map doc_id (PdfDocuments s))"
    by (simp add: primary_keys_def)
  have "\<not> (doc_id x = documentId \<and> doc_userId x = userId)" if "x \<in> set (PdfDocuments s)" for x
  proof
    assume a: "doc_id x = documentId \<and> doc_userId x = userId"
    with assms(3) have "doc_id x = doc_id d" by simp
    from distinct_key_unique [OF dist that assms(2) this] a assms(4) show False by simp
  qed
  then show ?thesis by (intro getOwnedDocument_no_match) blast
qed

lemma getOwnedDocument_annotations [simp]:
  "getOwnedDocument documentId userId (s\<lparr>PdfAnnotations := rows\<rparr>) =
   getOwnedDocument documentId userId s"
  by (simp add: getOwnedDocument_def)

lemma getOwnedDocument_pages [simp]:
  "getOwnedDocument documentId userId (s\<lparr>PdfPages := rows\<rparr>) =
   getOwnedDocument documentId userId s"
  by (simp add: getOwnedDocument_def)

lemma getOwnedPage_Inr:
  assumes "getOwnedPage pageId documentId userId s = Inr page"
  shows "(\<exists>doc. getOwnedDocument documentId userId s = Inr doc) \<and>
         page \<in> set (PdfPages s) \<and> page_id page = pageId \<and> page_documentId page = documentId"
proof -
  from assms obtain doc where doc: "getOwnedDocument documentId userId s = Inr doc"
    by (auto simp: getOwnedPage_def split: sum.splits)
  with assms have "first_row (filter (\<lambda>p. page_id p = pageId \<and> page_documentId p = documentId)
                      (PdfPages s)) = Some page"
    by (auto simp: getOwnedPage_def db_select_Some split: option.splits)
  from first_row_filter_Some [OF this] doc show ?thesis by blast
qed

lemma getOwnedPage_no_match:
  assumes "getOwnedDocument documentId userId s = Inr doc"
    and "\<forall>p\<in>set (PdfPages s). \<not> (page_id p = pageId \<and> page_documentId p = documentId)"
  shows "getOwnedPage pageId documentId userId s =
     Inl (ActionError NOT_FOUND ''PDF page not found.'')"
  using assms(1)
  by (simp add: getOwnedPage_def db_select_no_match [OF assms(2)] first_row_def)

section \<open>Primary keys are kept by every action\<close>

text \<open>
  The sample store has unique ids, the empty store has, and no action breaks uniqueness:
  an insert with a taken id is rejected, an update does not write the id, a delete only
  removes rows.
\<close>

lemmas store_defs = db_select_def read_rows_def first_row_def readable_document_def
  readable_page_def readable_annotation_def readable_number_def is_integer_def

lemmas sample_defs = sample_db_def sample_documents_def sample_pages_def sample_annotations_def
  signed_in_def signed_out_def

lemma primary_keys_sample: "primary_keys (sample_db fk)"
  by (simp add: primary_keys_def sample_defs)

lemma primary_keys_empty:
  "primary_keys \<lparr>PdfDocuments = [], PdfPages = [], PdfAnnotations = [], foreign_keys = fk\<rparr>"
  by (simp add: primary_keys_def)

lemma primary_keys_createDocument:
  assumes "primary_keys s"
  shows "primary_keys (snd (createDocument context uuid now input s))"
  using assms
  by (auto simp: createDocument_def primary_keys_def split: sum.splits option.splits
      dest: db_insert_keys [rotated])

lemma primary_keys_updateDocument:
  assumes "primary_keys s"
  shows "primary_keys (snd (updateDocument context now input s))"
proof -
  have "doc_id (updateDocument_set now input d) = doc_id d" for d
    by (simp add: updateDocument_set_def)
  from db_update_keys [of doc_id, OF this] assms show ?thesis
    by (auto simp: updateDocument_def primary_keys_def split: sum.splits option.splits)
qed

lemma primary_keys_createPage:
  assumes "primary_keys s"
  shows "primary_keys (snd (createPage context uuid now input s))"
  using assms
  by (auto simp: createPage_def primary_keys_def split: sum.splits option.splits
      dest: db_insert_keys [rotated])

lemma primary_keys_createAnnotation:
  assumes "primary_keys s"
  shows "primary_keys (snd (createAnnotation context uuid now input s))"
  using assms
  by (auto simp: createAnnotation_def primary_keys_def split: sum.splits option.splits
      dest: db_insert_keys [rotated])

lemma primary_keys_updateAnnotation:
  assumes "primary_keys s"
  shows "primary_keys (snd (updateAnnotation context now input s))"
proof -
  have "ann_id (updateAnnotation_set now input a) = ann_id a" for a
    by (simp add: updateAnnotation_set_def)
  from db_update_keys [of ann_id, OF this] assms show ?thesis
    by (auto simp: updateAnnotation_def primary_keys_def split: sum.splits option.splits)
qed

lemma primary_keys_deleteAnnotation:
  assumes "primary_keys s"
  shows "primary_keys (snd (deleteAnnotation context input s))"
  using assms
  by (auto simp: deleteAnnotation_def primary_keys_def db_delete_def distinct_map_filter
      split: sum.splits)

section \<open>When the actions fail and succeed\<close>

lemma guarded_updateDocument:
  assumes "requireUser context = Inr u" "updateDocument_schema input"
    "getOwnedDocument (ud_id input) (user_id u) s = Inl e"
  shows "updateDocument context now input s = (Inl e, s)"
  using assms by (simp add: updateDocument_def)

lemma guarded_createPage:
  assumes "requireUser context = Inr u" "createPage_schema input"
    "getOwnedDocument (cp_documentId input) (user_id u) s = Inl e"
  shows "createPage context uuid now input s = (Inl e, s)"
  using assms by (simp add: createPage_def)

lemma guarded_listPages:
  assumes "requireUser context = Inr u" "documentId_schema documentId"
    "getOwnedDocument documentId (user_id u) s = Inl e"
  shows "listPages context documentId s = (Inl e, s)"
  using assms by (simp add: listPages_def)

lemma guarded_createAnnotation:
  assumes "requireUser context = Inr u" "createAnnotation_schema input"
    "getOwnedDocument (ca_documentId input) (user_id u) s = Inl e"
  shows "createAnnotation context uuid now input s = (Inl e, s)"
  using assms by (simp add: createAnnotation_def)

lemma guarded_updateAnnotation:
  assumes "requireUser context = Inr u" "updateAnnotation_schema input"
    "getOwnedDocument (ua_documentId input) (user_id u) s = Inl e"
  shows "updateAnnotation context now input s = (Inl e, s)"
  using assms by (simp add: updateAnnotation_def)

lemma guarded_deleteAnnotation:
  assumes "requireUser context = Inr u" "deleteAnnotation_schema input"
    "getOwnedDocument (da_documentId input) (user_id u) s = Inl e"
  shows "deleteAnnotation context input s = (Inl e, s)"
  using assms by (simp add: deleteAnnotation_def)

lemma guarded_listAnnotations:
  assumes "requireUser context = Inr u" "documentId_schema documentId"
    "getOwnedDocument documentId (user_id u) s = Inl e"
  shows "listAnnotations context documentId s = (Inl e, s)"
  using assms by (simp add: listAnnotations_def)

lemmas guarded_actions = guarded_updateDocument guarded_createPage guarded_listPages
  guarded_createAnnotation guarded_updateAnnotation guarded_deleteAnnotation
  guarded_listAnnotations




lemma listPages_Inr:
  assumes "listPages context documentId s = (Inr l, s')"
  shows "list_all readable_page (filter (\<lambda>p. page_documentId p = documentId) (PdfPages s)) \<and>
         items l = filter (\<lambda>p. page_documentId p = documentId) (PdfPages s) \<and>
         total l = length (items l) \<and> s' = s"
proof -
  have schema: "documentId_schema documentId"
    using assms by (simp add: listPages_def split: if_splits)
  obtain u where u: "requireUser context = Inr u"
    using assms schema by (cases "requireUser context") (simp_all add: listPages_def)
  obtain doc where doc: "getOwnedDocument documentId (user_id u) s = Inr doc"
    using assms schema u
    by (cases "getOwnedDocument documentId (user_id u) s") (simp_all add: listPages_def)
  obtain rows where rows: "db_select readable_page (\<lambda>p. page_documentId p = documentId)
      (PdfPages s) = Some rows"
    using assms schema u doc
    by (cases "db_select readable_page (\<lambda>p. page_documentId p = documentId) (PdfPages s)")
      (simp_all add: listPages_def)
  with assms schema u doc have "l = \<lparr>items = rows, total = length rows\<rparr>" "s' = s"
    by (simp_all add: listPages_def)
  with rows show ?thesis by (auto simp: db_select_Some)
qed

lemma listAnnotations_owned:
  assumes "requireUser context = Inr u" "documentId_schema documentId"
    "getOwnedDocument documentId (user_id u) s = Inr doc"
  shows "listAnnotations context documentId s =
     (Inr \<lparr>items = filter (\<lambda>a. ann_documentId a = documentId) (PdfAnnotations s),
           total = length (filter (\<lambda>a. ann_documentId a = documentId) (PdfAnnotations s))\<rparr>, s)"
  using assms by (simp add: listAnnotations_def)

lemma listAnnotations_Inr:
  assumes "listAnnotations context documentId s = (Inr l, s')"
  shows "items l = filter (\<lambda>a. ann_documentId a = documentId) (PdfAnnotations s) \<and>
         total l = length (items l) \<and> s' = s"
proof -
  have schema: "documentId_schema documentId"
    using assms by (simp add: listAnnotations_def split: if_splits)
  obtain u where u: "requireUser context = Inr u"
    using assms schema by (cases "requireUser context") (simp_all add: listAnnotations_def)
  obtain doc where doc: "getOwnedDocument documentId (user_id u) s = Inr doc"
    using assms schema u
    by (cases "getOwnedDocument documentId (user_id u) s") (simp_all add: listAnnotations_def)
  from assms listAnnotations_owned [OF u schema doc] show ?thesis by auto
qed

lemma insert_document:
  assumes "uuid \<notin> doc_id ` set (PdfDocuments s)" "doc_id row = uuid"
  shows "db_insert doc_id True readable_document row (PdfDocuments s) =
     Some (PdfDocuments s @ [row], if readable_document row then Some [row] else None)"
  using assms by (simp add: db_insert_def read_rows_def)

lemma createDocument_written:
  assumes "requireUser context = Inr u" "uuid \<notin> doc_id ` set (PdfDocuments s)"
  shows "createDocument context uuid now input s =
     (let row = \<lparr>doc_id = uuid, doc_userId = user_id u, doc_title = cd_title input,
            doc_sourceType = cd_sourceType input, doc_sourceUrl = cd_sourceUrl input,
            doc_pageCount = cd_pageCount input, doc_lastOpenedAt = cd_lastOpenedAt input,
            doc_createdAt = now, doc_updatedAt = now\<rparr>
      in (if readable_document row then Inr (Some row) else Inl StoreError,
          s\<lparr>PdfDocuments := PdfDocuments s @ [row]\<rparr>))"
  using assms by (simp add: createDocument_def insert_document first_row_def Let_def)


lemma createDocument_fresh:
  assumes "requireUser context = Inr u" "uuid \<notin> doc_id ` set (PdfDocuments s)"
    and "case cd_pageCount input of None \<Rightarrow> True | Some n \<Rightarrow> readable_number n"
  shows "\<exists>row. createDocument context uuid now input s =
     (Inr (Some row), s\<lparr>PdfDocuments := PdfDocuments s @ [row]\<rparr>)"
  using assms(3) createDocument_written [OF assms(1,2), of now input]
  by (simp add: Let_def readable_document_def)

lemma createDocument_unreadable:
  assumes "requireUser context = Inr u" "uuid \<notin> doc_id ` set (PdfDocuments s)"
    and "cd_pageCount input = Some n" "\<not> readable_number n"
  shows "createDocument context uuid now input s =
     (Inl StoreError,
      s\<lparr>PdfDocuments := PdfDocuments s @
         [\<lparr>doc_id = uuid, doc_userId = user_id u, doc_title = cd_title input,
           doc_sourceType = cd_sourceType input, doc_sourceUrl = cd_sourceUrl input,
           doc_pageCount = Some n, doc_lastOpenedAt = cd_lastOpenedAt input,
           doc_createdAt = now, doc_updatedAt = now\<rparr>]\<rparr>)"
  using assms(3,4) createDocument_written [OF assms(1,2), of now input]
  by (simp add: Let_def readable_document_def)

lemma createPage_written:
  assumes "requireUser context = Inr u" "createPage_schema input"
    and "getOwnedDocument (cp_documentId input) (user_id u) s = Inr doc"
    and "uuid \<notin> page_id ` set (PdfPages s)"
  shows "createPage context uuid now input s =
     (let row = \<lparr>page_id = uuid, page_documentId = cp_documentId input,
            page_pageNumber = cp_pageNumber input, page_textContent = cp_textContent input,
            page_createdAt = now\<rparr>
      in (if readable_page row then Inr (Some row) else Inl StoreError,
          s\<lparr>PdfPages := PdfPages s @ [row]\<rparr>))"
proof -
  from getOwnedDocument_Inr [OF assms(3)]
  have "references_ok s (cp_documentId input) (map doc_id (PdfDocuments s))"
    by (metis references_ok_def image_eqI set_map)
  with assms show ?thesis
    by (simp add: createPage_def db_insert_def read_rows_def first_row_def Let_def)
qed


lemma createPage_fresh:
  assumes "requireUser context = Inr u" "createPage_schema input"
    and "getOwnedDocument (cp_documentId input) (user_id u) s = Inr doc"
    and "uuid \<notin> page_id ` set (PdfPages s)"
    and "readable_number (of_int (cp_pageNumber input))"
  shows "\<exists>row. createPage context uuid now input s =
     (Inr (Some row), s\<lparr>PdfPages := PdfPages s @ [row]\<rparr>)"
  using assms(5) createPage_written [OF assms(1-4), of now]
  by (simp add: Let_def readable_page_def)

lemma createAnnotation_Inr:
  assumes "createAnnotation context uuid now input s = (Inr r, s')"
  shows "\<exists>u doc row. createAnnotation_schema input \<and> requireUser context = Inr u \<and>
     getOwnedDocument (ca_documentId input) (user_id u) s = Inr doc \<and>
     (case ca_pageId input of None \<Rightarrow> None
      | Some pageId \<Rightarrow>
          if truthy pageId
          then thrown (getOwnedPage pageId (ca_documentId input) (user_id u) s)
          else None) = None \<and>
     row = \<lparr>ann_id = uuid, ann_documentId = ca_documentId input,
            ann_pageId = ca_pageId input, ann_userId = user_id u,
            ann_annotationType = ca_annotationType input,
            ann_selectionJson = ca_selectionJson input,
            ann_comment = ca_comment input, ann_color = ca_color input,
            ann_createdAt = now, ann_updatedAt = now\<rparr> \<and>
     r = Some row \<and> s' = s\<lparr>PdfAnnotations := PdfAnnotations s @ [row]\<rparr>"
proof -
  have schema: "createAnnotation_schema input"
    using assms by (simp add: createAnnotation_def split: if_splits)
  obtain u where u: "requireUser context = Inr u"
    using assms schema by (cases "requireUser context") (simp_all add: createAnnotation_def)
  let ?row = "\<lparr>ann_id = uuid, ann_documentId = ca_documentId input,
            ann_pageId = ca_pageId input, ann_userId = user_id u,
            ann_annotationType = ca_annotationType input,
            ann_selectionJson = ca_selectionJson input,
            ann_comment = ca_comment input, ann_color = ca_color input,
            ann_createdAt = now, ann_updatedAt = now\<rparr>"
  let ?refs = "references_ok s (ca_documentId input) (map doc_id (PdfDocuments s)) \<and>
     references_opt_ok s (ca_pageId input) (map page_id (PdfPages s))"
  let ?page = "case ca_pageId input of None \<Rightarrow> None
      | Some pageId \<Rightarrow>
          if truthy pageId
          then thrown (getOwnedPage pageId (ca_documentId input) (user_id u) s)
          else None"
  obtain doc where doc: "getOwnedDocument (ca_documentId input) (user_id u) s = Inr doc"
    using assms schema u
    by (cases "getOwnedDocument (ca_documentId input) (user_id u) s")
      (simp_all add: createAnnotation_def)
  have page: "?page = None"
    using assms schema u doc by (cases ?page) (simp_all add: createAnnotation_def)
  obtain rows returning where
    ins: "db_insert ann_id ?refs readable_annotation ?row (PdfAnnotations s) =
      Some (rows, returning)"
    using assms schema u doc page
    by (cases "db_insert ann_id ?refs readable_annotation ?row (PdfAnnotations s)")
      (auto simp: createAnnotation_def)
  then have ret: "rows = PdfAnnotations s @ [?row]" "returning = Some [?row]"
    by (simp_all add: db_insert_Some)
  with assms schema u doc page ins
  have "r = Some ?row \<and> s' = s\<lparr>PdfAnnotations := PdfAnnotations s @ [?row]\<rparr>"
    by (simp add: createAnnotation_def first_row_def)
  with schema u doc page show ?thesis by blast
qed

lemma createAnnotation_fresh:
  assumes "requireUser context = Inr u" "createAnnotation_schema input"
    and "getOwnedDocument (ca_documentId input) (user_id u) s = Inr doc"
    and "ca_pageId input = None \<or>
         (\<exists>pageId page. ca_pageId input = Some pageId \<and> pageId \<noteq> [] \<and>
            getOwnedPage pageId (ca_documentId input) (user_id u) s = Inr page)"
    and "uuid \<notin> ann_id ` set (PdfAnnotations s)"
  shows "\<exists>row. createAnnotation context uuid now input s =
     (Inr (Some row), s\<lparr>PdfAnnotations := PdfAnnotations s @ [row]\<rparr>)"
proof -
  from getOwnedDocument_Inr [OF assms(3)]
  have doc: "references_ok s (ca_documentId input) (map doc_id (PdfDocuments s))"
    by (metis references_ok_def image_eqI set_map)
  from assms(4) show ?thesis
  proof
    assume "ca_pageId input = None"
    with assms(1,2,3,5) doc show ?thesis
      by (simp add: createAnnotation_def db_insert_def first_row_def references_opt_ok_def)
  next
    assume "\<exists>pageId page. ca_pageId input = Some pageId \<and> pageId \<noteq> [] \<and>
            getOwnedPage pageId (ca_documentId input) (user_id u) s = Inr page"
    then obtain pageId page where p: "ca_pageId input = Some pageId" "pageId \<noteq> []"
      "getOwnedPage pageId (ca_documentId input) (user_id u) s = Inr page"
      by blast
    from getOwnedPage_Inr [OF p(3)]
    have "pageId \<in> set (map page_id (PdfPages s))"
      by (metis image_eqI set_map)
    then have "references_opt_ok s (ca_pageId input) (map page_id (PdfPages s))"
      by (simp add: references_opt_ok_def references_ok_def p(1))
    with assms(1,2,3,5) doc p show ?thesis
      by (simp add: createAnnotation_def db_insert_def first_row_def truthy_def thrown_def)
  qed
qed

lemma createAnnotation_page_of_other_document:
  assumes "requireUser context = Inr u" "createAnnotation_schema input"
    and "getOwnedDocument (ca_documentId input) (user_id u) s = Inr doc"
    and "ca_pageId input = Some pageId" "pageId \<noteq> []"
    and "\<forall>p\<in>set (PdfPages s). \<not> (page_id p = pageId \<and> page_documentId p = ca_documentId input)"
  shows "createAnnotation context uuid now input s =
     (Inl (ActionError NOT_FOUND ''PDF page not found.''), s)"
proof -
  from getOwnedPage_no_match [OF assms(3) assms(6)]
  have "getOwnedPage pageId (ca_documentId input) (user_id u) s =
      Inl (ActionError NOT_FOUND ''PDF page not found.'')" .
  with assms(1-5) show ?thesis
    by (simp add: createAnnotation_def truthy_def thrown_def)
qed

lemma createAnnotation_page_checked:
  assumes "createAnnotation context uuid now input s = (Inr r, s')"
    and "ca_pageId input = Some pageId" "pageId \<noteq> []"
  shows "\<exists>p\<in>set (PdfPages s). page_id p = pageId \<and> page_documentId p = ca_documentId input"
proof -
  from createAnnotation_Inr [OF assms(1)] obtain u :: User and doc where
    doc: "getOwnedDocument (ca_documentId input) (user_id u) s = Inr doc" and
    page: "(case ca_pageId input of None \<Rightarrow> None
      | Some pageId \<Rightarrow>
          if truthy pageId
          then thrown (getOwnedPage pageId (ca_documentId input) (user_id u) s)
          else None) = None"
    by blast
  from page assms(2,3) have "thrown (getOwnedPage pageId (ca_documentId input) (user_id u) s) = None"
    by (simp add: truthy_def)
  then obtain p where "getOwnedPage pageId (ca_documentId input) (user_id u) s = Inr p"
    by (cases "getOwnedPage pageId (ca_documentId input) (user_id u) s") (simp_all add: thrown_def)
  from getOwnedPage_Inr [OF this] show ?thesis by blast
qed

lemma updateAnnotation_Inr:
  assumes "updateAnnotation context now input s = (Inr r, s')"
  shows "\<exists>u doc existing.
     requireUser context = Inr u \<and>
     getOwnedDocument (ua_documentId input) (user_id u) s = Inr doc \<and>
     first_row (filter (\<lambda>a. ann_id a = ua_id input \<and> ann_documentId a = ua_documentId input)
        (PdfAnnotations s)) = Some existing \<and>
     r = first_row (map (updateAnnotation_set now input)
           (filter (\<lambda>a. ann_id a = ua_id input) (PdfAnnotations s))) \<and>
     s' = s\<lparr>PdfAnnotations :=
            map (\<lambda>a. if ann_id a = ua_id input then updateAnnotation_set now input a else a)
              (PdfAnnotations s)\<rparr>"
proof -
  let ?existing = "first_row (filter (\<lambda>a. ann_id a = ua_id input \<and>
      ann_documentId a = ua_documentId input) (PdfAnnotations s))"
  have schema: "updateAnnotation_schema input"
    using assms by (simp add: updateAnnotation_def split: if_splits)
  obtain u where u: "requireUser context = Inr u"
    using assms schema by (cases "requireUser context") (simp_all add: updateAnnotation_def)
  obtain doc where doc: "getOwnedDocument (ua_documentId input) (user_id u) s = Inr doc"
    using assms schema u
    by (cases "getOwnedDocument (ua_documentId input) (user_id u) s")
      (simp_all add: updateAnnotation_def)
  have page: "(case ua_pageId input of None \<Rightarrow> None
    | Some pageId \<Rightarrow> thrown (getOwnedPage pageId (ua_documentId input) (user_id u) s)) = None"
    using assms schema u doc
    by (cases "case ua_pageId input of None \<Rightarrow> None
        | Some pageId \<Rightarrow> thrown (getOwnedPage pageId (ua_documentId input) (user_id u) s)")
      (simp_all add: updateAnnotation_def)
  obtain existing where ex: "?existing = Some existing"
    using assms schema u doc page
    by (cases ?existing) (simp_all add: updateAnnotation_def)
  from assms schema u doc page ex
  have "r = first_row (map (updateAnnotation_set now input)
           (filter (\<lambda>a. ann_id a = ua_id input) (PdfAnnotations s))) \<and>
     s' = s\<lparr>PdfAnnotations :=
            map (\<lambda>a. if ann_id a = ua_id input then updateAnnotation_set now input a else a)
              (PdfAnnotations s)\<rparr>"
    by (simp add: updateAnnotation_def db_update_def split: if_splits)
  with u doc ex show ?thesis by blast
qed

lemma updateAnnotation_row:
  assumes pk: "primary_keys s"
    and run: "updateAnnotation context now input s = (Inr r, s')"
  shows "\<exists>u doc existing.
     requireUser context = Inr u \<and>
     getOwnedDocument (ua_documentId input) (user_id u) s = Inr doc \<and>
     existing \<in> set (PdfAnnotations s) \<and>
     ann_id existing = ua_id input \<and> ann_documentId existing = ua_documentId input \<and>
     r = Some (updateAnnotation_set now input existing) \<and>
     s' = s\<lparr>PdfAnnotations :=
            map (\<lambda>a. if a = existing then updateAnnotation_set now input existing else a)
              (PdfAnnotations s)\<rparr>"
proof -
  from updateAnnotation_Inr [OF run] obtain u doc existing where
    u: "requireUser context = Inr u" and
    doc: "getOwnedDocument (ua_documentId input) (user_id u) s = Inr doc" and
    ex: "first_row (filter (\<lambda>a. ann_id a = ua_id input \<and> ann_documentId a = ua_documentId input)
        (PdfAnnotations s)) = Some existing" and
    r: "r = first_row (map (updateAnnotation_set now input)
           (filter (\<lambda>a. ann_id a = ua_id input) (PdfAnnotations s)))" and
    s': "s' = s\<lparr>PdfAnnotations :=
            map (\<lambda>a. if ann_id a = ua_id input then updateAnnotation_set now input a else a)
              (PdfAnnotations s)\<rparr>"
    by blast
  from first_row_filter_Some [OF ex] have
    mem: "existing \<in> set (PdfAnnotations s)" and
    id: "ann_id existing = ua_id input" and
    did: "ann_documentId existing = ua_documentId input"
    by simp_all
  from pk have dist: "distinct (map ann_id (PdfAnnotations s))"
    by (simp add: primary_keys_def)
  from filter_key_singleton [OF dist mem] id
  have "filter (\<lambda>a. ann_id a = ua_id input) (PdfAnnotations s) = [existing]" by simp
  with r have r': "r = Some (updateAnnotation_set now input existing)"
    by (simp add: first_row_def)
  from map_key_only [OF dist mem, of "updateAnnotation_set now input"] id s'
  have "s' = s\<lparr>PdfAnnotations :=
            map (\<lambda>a. if a = existing then updateAnnotation_set now input existing else a)
              (PdfAnnotations s)\<rparr>"
    by simp
  with u doc mem id did r' show ?thesis by blast
qed

lemma deleteAnnotation_owned:
  assumes "requireUser context = Inr u" "deleteAnnotation_schema input"
    "getOwnedDocument (da_documentId input) (user_id u) s = Inr doc"
  shows "deleteAnnotation context input s =
     (if filter (\<lambda>a. ann_id a = da_id input \<and> ann_documentId a = da_documentId input)
           (PdfAnnotations s) = []
      then (Inl (ActionError NOT_FOUND ''Annotation not found.''), s)
      else (Inr (),
            s\<lparr>PdfAnnotations :=
                filter (\<lambda>a. \<not> (ann_id a = da_id input \<and> ann_documentId a = da_documentId input))
                  (PdfAnnotations s)\<rparr>))"
proof (cases "filter (\<lambda>a. ann_id a = da_id input \<and> ann_documentId a = da_documentId input)
           (PdfAnnotations s) = []")
  case True
  then have "filter (\<lambda>a. \<not> (ann_id a = da_id input \<and> ann_documentId a = da_documentId input))
      (PdfAnnotations s) = PdfAnnotations s"
    by (simp only: filter_not_empty_conv)
  with True assms show ?thesis
    by (simp add: deleteAnnotation_def db_delete_def)
next
  case False
  with assms show ?thesis
    by (simp add: deleteAnnotation_def db_delete_def)
qed

lemma readable_number_safe: "\<bar>n\<bar> < 2 ^ 53 \<Longrightarrow> readable_number n"
  by (simp add: readable_number_def)

lemma unreadable_2_53: "\<not> readable_number (2 ^ 53)"
  by (simp add: readable_number_def is_integer_def)

lemma unreadable_rows: "\<not> readable_document unreadable_document" "\<not> readable_page unreadable_page"
  by (simp_all add: readable_document_def readable_page_def unreadable_document_def
      unreadable_page_def readable_number_def is_integer_def)

lemma updateDocument_unreadable_sample:
  "updateDocument (signed_in ''u1'') 800
      \<lparr>ud_id = ''d1'', ud_title = None, ud_sourceType = None, ud_sourceUrl = None,
       ud_pageCount = Some (2 ^ 53), ud_lastOpenedAt = None\<rparr> (sample_db True) =
     (Inl StoreError,
      (sample_db True)\<lparr>PdfDocuments :=
         [(sample_documents ! 0)\<lparr>doc_pageCount := Some (2 ^ 53), doc_updatedAt := 800\<rparr>,
          sample_documents ! 1]\<rparr>)"
  by (simp add: updateDocument_def updateDocument_schema_def updateDocument_set_def
      patch_field_def requireUser_signed_in getOwnedDocument_def db_update_def store_defs
      sample_db_def sample_documents_def)

section \<open>Properties of the actions\<close>

text \<open>
  C1. A signed-in caller names a document id in a schema-valid call of each guarded action
  (updateDocument, createPage, listPages, createAnnotation, updateAnnotation,
  deleteAnnotation, listAnnotations). In a store \<open>s1\<close> where a document with that id exists but
  belongs to another user, and in a store \<open>s0\<close> where no document has that id, every action
  fails with the same \<open>ActionError\<close>, code \<open>NOT_FOUND\<close> and message
  "PDF document not found.", and leaves the store as it was.
\<close>

theorem not_owned_indistinguishable:
  assumes user: "requireUser context = Inr u"
    and absent: "documentId \<notin> doc_id ` set (PdfDocuments s0)"
    and foreign: "primary_keys s1" "d \<in> set (PdfDocuments s1)" "doc_id d = documentId"
      "doc_userId d \<noteq> user_id u"
    and ud: "updateDocument_schema ud" "ud_id ud = documentId"
    and cp: "createPage_schema cp" "cp_documentId cp = documentId"
    and ca: "createAnnotation_schema ca" "ca_documentId ca = documentId"
    and ua: "updateAnnotation_schema ua" "ua_documentId ua = documentId"
    and da: "deleteAnnotation_schema da" "da_documentId da = documentId"
    and li: "documentId_schema documentId"
  shows "let e = ActionError NOT_FOUND ''PDF document not found.'' in
     updateDocument context now ud s1 = (Inl e, s1) \<and>
     updateDocument context now ud s0 = (Inl e, s0) \<and>
     createPage context uuid now cp s1 = (Inl e, s1) \<and>
     createPage context uuid now cp s0 = (Inl e, s0) \<and>
     listPages context documentId s1 = (Inl e, s1) \<and>
     listPages context documentId s0 = (Inl e, s0) \<and>
     createAnnotation context uuid now ca s1 = (Inl e, s1) \<and>
     createAnnotation context uuid now ca s0 = (Inl e, s0) \<and>
     updateAnnotation context now ua s1 = (Inl e, s1) \<and>
     updateAnnotation context now ua s0 = (Inl e, s0) \<and>
     deleteAnnotation context da s1 = (Inl e, s1) \<and>
     deleteAnnotation context da s0 = (Inl e, s0) \<and>
     listAnnotations context documentId s1 = (Inl e, s1) \<and>
     listAnnotations context documentId s0 = (Inl e, s0)"
proof -
  have g0: "getOwnedDocument documentId (user_id u) s0 =
      Inl (ActionError NOT_FOUND ''PDF document not found.'')"
    by (rule getOwnedDocument_absent [OF absent])
  have g1: "getOwnedDocument documentId (user_id u) s1 =
      Inl (ActionError NOT_FOUND ''PDF document not found.'')"
    by (rule getOwnedDocument_foreign [OF foreign])
  show ?thesis
    unfolding Let_def
    using g0 g1 user ud cp ca ua da li
    by (simp add: guarded_actions)
qed

theorem not_owned_indistinguishable_witness:
  "requireUser (signed_in ''u2'') = Inr \<lparr>user_id = ''u2''\<rparr> \<and>
   ''d1'' \<notin> doc_id ` set (PdfDocuments ((sample_db True)\<lparr>PdfDocuments := tl sample_documents\<rparr>)) \<and>
   hd sample_documents \<in> set (PdfDocuments (sample_db True)) \<and>
   doc_id (hd sample_documents) = ''d1'' \<and> doc_userId (hd sample_documents) = ''u1'' \<and>
   (let e = ActionError NOT_FOUND ''PDF document not found.'';
        s1 = sample_db True; s0 = (sample_db True)\<lparr>PdfDocuments := tl sample_documents\<rparr>;
        context = signed_in ''u2'';
        ud = \<lparr>ud_id = ''d1'', ud_title = Some ''Mine'', ud_sourceType = None, ud_sourceUrl = None,
              ud_pageCount = None, ud_lastOpenedAt = None\<rparr>;
        cp = \<lparr>cp_documentId = ''d1'', cp_pageNumber = 2, cp_textContent = None\<rparr>;
        ca = \<lparr>ca_documentId = ''d1'', ca_pageId = Some ''p1'', ca_annotationType = None,
              ca_selectionJson = None, ca_comment = None, ca_color = None\<rparr>;
        ua = \<lparr>ua_id = ''a1'', ua_documentId = ''d1'', ua_pageId = None, ua_annotationType = None,
              ua_selectionJson = None, ua_comment = Some ''hello'', ua_color = None\<rparr>;
        da = \<lparr>da_id = ''a1'', da_documentId = ''d1''\<rparr>
    in updateDocument context 500 ud s1 = (Inl e, s1) \<and>
       updateDocument context 500 ud s0 = (Inl e, s0) \<and>
       createPage context ''p9'' 500 cp s1 = (Inl e, s1) \<and>
       createPage context ''p9'' 500 cp s0 = (Inl e, s0) \<and>
       listPages context ''d1'' s1 = (Inl e, s1) \<and>
       listPages context ''d1'' s0 = (Inl e, s0) \<and>
       createAnnotation context ''p9'' 500 ca s1 = (Inl e, s1) \<and>
       createAnnotation context ''p9'' 500 ca s0 = (Inl e, s0) \<and>
       updateAnnotation context 500 ua s1 = (Inl e, s1) \<and>
       updateAnnotation context 500 ua s0 = (Inl e, s0) \<and>
       deleteAnnotation context da s1 = (Inl e, s1) \<and>
       deleteAnnotation context da s0 = (Inl e, s0) \<and>
       listAnnotations context ''d1'' s1 = (Inl e, s1) \<and>
       listAnnotations context ''d1'' s0 = (Inl e, s0))"
proof -
  have user: "requireUser (signed_in ''u2'') = Inr \<lparr>user_id = ''u2''\<rparr>"
    by (rule requireUser_signed_in)
  have absent: "''d1'' \<notin> doc_id ` set (PdfDocuments ((sample_db True)\<lparr>PdfDocuments := tl sample_documents\<rparr>))"
    by (simp add: sample_defs)
  have pk: "primary_keys (sample_db True)"
    by (rule primary_keys_sample)
  have d: "hd sample_documents \<in> set (PdfDocuments (sample_db True))"
    "doc_id (hd sample_documents) = ''d1''"
    "doc_userId (hd sample_documents) = ''u1''"
    "doc_userId (hd sample_documents) \<noteq> user_id \<lparr>user_id = ''u2''\<rparr>"
    by (simp_all add: sample_defs)
  have ud: "updateDocument_schema \<lparr>ud_id = ''d1'', ud_title = Some ''Mine'', ud_sourceType = None,
      ud_sourceUrl = None, ud_pageCount = None, ud_lastOpenedAt = None\<rparr>"
    by (simp add: updateDocument_schema_def)
  have cp: "createPage_schema \<lparr>cp_documentId = ''d1'', cp_pageNumber = 2, cp_textContent = None\<rparr>"
    by (simp add: createPage_schema_def)
  have ca: "createAnnotation_schema \<lparr>ca_documentId = ''d1'', ca_pageId = Some ''p1'',
      ca_annotationType = None, ca_selectionJson = None, ca_comment = None, ca_color = None\<rparr>"
    by (simp add: createAnnotation_schema_def)
  have ua: "updateAnnotation_schema \<lparr>ua_id = ''a1'', ua_documentId = ''d1'', ua_pageId = None,
      ua_annotationType = None, ua_selectionJson = None, ua_comment = Some ''hello'',
      ua_color = None\<rparr>"
    by (simp add: updateAnnotation_schema_def)
  have da: "deleteAnnotation_schema \<lparr>da_id = ''a1'', da_documentId = ''d1''\<rparr>"
    by (simp add: deleteAnnotation_schema_def)
  have li: "documentId_schema ''d1''"
    by (simp add: documentId_schema_def)
  from not_owned_indistinguishable [OF user absent pk d(1,2,4) ud _ cp _ ca _ ua _ da _ li,
      of 500 "''p9''"] user absent d(1-3)
  show ?thesis by (simp add: Let_def)
qed

text \<open>
  C2. createAnnotation tests the supplied \<open>pageId\<close> for truthiness (line 194), so an empty
  string skips the page check although it is stored as the annotation's \<open>pageId\<close> (line 204).
  The owner of document \<open>d1\<close> calls createAnnotation with \<open>pageId\<close> the empty string, which
  names no page: without enforced references the annotation is inserted with that
  \<open>pageId\<close>; with enforced references the store rejects the insert; in neither case is the
  failure \<open>NOT_FOUND\<close>. The page guard itself rejects that \<open>pageId\<close>, and so does
  updateAnnotation, which tests \<open>pageId\<close> against undefined (line 243). For a non-empty
  \<open>pageId\<close> the check is made (lemmas \<open>createAnnotation_page_of_other_document\<close>
  and \<open>createAnnotation_page_checked\<close>).
\<close>

theorem createAnnotation_empty_pageId:
  "fst (createAnnotation (signed_in ''u1'') ''a4'' 720
          \<lparr>ca_documentId = ''d1'', ca_pageId = Some [], ca_annotationType = None,
           ca_selectionJson = None, ca_comment = None, ca_color = None\<rparr> (sample_db False)) =
     Inr (Some \<lparr>ann_id = ''a4'', ann_documentId = ''d1'', ann_pageId = Some [],
                ann_userId = ''u1'', ann_annotationType = None, ann_selectionJson = None,
                ann_comment = None, ann_color = None,
                ann_createdAt = 720, ann_updatedAt = 720\<rparr>) \<and>
   fst (createAnnotation (signed_in ''u1'') ''a4'' 720
          \<lparr>ca_documentId = ''d1'', ca_pageId = Some [], ca_annotationType = None,
           ca_selectionJson = None, ca_comment = None, ca_color = None\<rparr> (sample_db True)) =
     Inl StoreError \<and>
   getOwnedPage [] ''d1'' ''u1'' (sample_db False) =
     Inl (ActionError NOT_FOUND ''PDF page not found.'') \<and>
   fst (updateAnnotation (signed_in ''u1'') 720
          \<lparr>ua_id = ''a1'', ua_documentId = ''d1'', ua_pageId = Some [], ua_annotationType = None,
           ua_selectionJson = None, ua_comment = None, ua_color = None\<rparr> (sample_db False)) =
     Inl (ActionError NOT_FOUND ''PDF page not found.'')"
  by (simp add: createAnnotation_def createAnnotation_schema_def
      updateAnnotation_def updateAnnotation_schema_def requireUser_signed_in
      getOwnedPage_def getOwnedDocument_def truthy_def thrown_def store_defs db_insert_def
      first_row_def references_ok_def references_opt_ok_def
      sample_db_def sample_documents_def sample_pages_def sample_annotations_def)

text \<open>
  C3. When \<open>getOwnedPage\<close> returns a page instead of throwing, the documents table holds a
  document with the given id owned by the given user, and the returned page is a row of
  the pages table with the given page id whose \<open>documentId\<close> is the given document id.
  So no page is returned for a document the caller does not own.
\<close>

theorem getOwnedPage_owned:
  assumes "getOwnedPage pageId documentId userId s = Inr page"
  shows "(\<exists>d\<in>set (PdfDocuments s). doc_id d = documentId \<and> doc_userId d = userId) \<and>
         page \<in> set (PdfPages s) \<and> page_id page = pageId \<and> page_documentId page = documentId"
proof -
  from getOwnedPage_Inr [OF assms] obtain doc where
    doc: "getOwnedDocument documentId userId s = Inr doc" and
    page: "page \<in> set (PdfPages s)" "page_id page = pageId" "page_documentId page = documentId"
    by blast
  from getOwnedDocument_Inr [OF doc]
  have "\<exists>d\<in>set (PdfDocuments s). doc_id d = documentId \<and> doc_userId d = userId"
    by blast
  with page show ?thesis by simp
qed

theorem getOwnedPage_owned_witness:
  "getOwnedPage ''p1'' ''d1'' ''u1'' (sample_db True) = Inr (hd sample_pages) \<and>
   (\<exists>d\<in>set (PdfDocuments (sample_db True)). doc_id d = ''d1'' \<and> doc_userId d = ''u1'') \<and>
   hd sample_pages \<in> set (PdfPages (sample_db True)) \<and>
   page_id (hd sample_pages) = ''p1'' \<and> page_documentId (hd sample_pages) = ''d1'' \<and>
   getOwnedPage ''p2'' ''d2'' ''u1'' (sample_db True) =
     Inl (ActionError NOT_FOUND ''PDF document not found.'')"
proof -
  have h: "getOwnedPage ''p1'' ''d1'' ''u1'' (sample_db True) = Inr (hd sample_pages)"
    by (simp add: getOwnedPage_def getOwnedDocument_def store_defs first_row_def sample_defs)
  have other: "getOwnedPage ''p2'' ''d2'' ''u1'' (sample_db True) =
      Inl (ActionError NOT_FOUND ''PDF document not found.'')"
    by (simp add: getOwnedPage_def getOwnedDocument_def store_defs first_row_def sample_defs)
  from getOwnedPage_owned [OF h] h other show ?thesis by simp
qed

text \<open>
  C4. A call of updateDocument or updateAnnotation that supplies none of the optional patch
  fields fails with the input error of the schema, whatever the request context (signed in
  or not) and whatever the store holds (the named rows owned, foreign or absent), and the
  store is returned unchanged: the schema is checked before the handler authenticates,
  checks ownership or writes.
\<close>

theorem update_without_patch_rejected:
  assumes "ud_title ud = None" "ud_sourceType ud = None" "ud_sourceUrl ud = None"
    "ud_pageCount ud = None" "ud_lastOpenedAt ud = None"
    and "ua_pageId ua = None" "ua_annotationType ua = None" "ua_selectionJson ua = None"
    "ua_comment ua = None" "ua_color ua = None"
  shows "updateDocument context now ud s = (Inl ActionInputError, s) \<and>
         updateAnnotation context now ua s = (Inl ActionInputError, s)"
  using assms
  by (simp add: updateDocument_def updateDocument_schema_def
      updateAnnotation_def updateAnnotation_schema_def)

theorem update_without_patch_rejected_witness:
  "requireUser signed_out =
     Inl (ActionError UNAUTHORIZED ''You must be signed in to perform this action.'') \<and>
   getOwnedDocument ''d1'' ''u2'' (sample_db True) =
     Inl (ActionError NOT_FOUND ''PDF document not found.'') \<and>
   updateDocument signed_out 500
     \<lparr>ud_id = ''d1'', ud_title = None, ud_sourceType = None, ud_sourceUrl = None,
      ud_pageCount = None, ud_lastOpenedAt = None\<rparr> (sample_db True) =
     (Inl ActionInputError, sample_db True) \<and>
   updateAnnotation signed_out 500
     \<lparr>ua_id = ''a1'', ua_documentId = ''d1'', ua_pageId = None, ua_annotationType = None,
      ua_selectionJson = None, ua_comment = None, ua_color = None\<rparr> (sample_db True) =
     (Inl ActionInputError, sample_db True) \<and>
   updateDocument (signed_in ''u2'') 500
     \<lparr>ud_id = ''d1'', ud_title = None, ud_sourceType = None, ud_sourceUrl = None,
      ud_pageCount = None, ud_lastOpenedAt = None\<rparr> (sample_db True) =
     (Inl ActionInputError, sample_db True) \<and>
   updateAnnotation (signed_in ''u2'') 500
     \<lparr>ua_id = ''a1'', ua_documentId = ''d1'', ua_pageId = None, ua_annotationType = None,
      ua_selectionJson = None, ua_comment = None, ua_color = None\<rparr> (sample_db True) =
     (Inl ActionInputError, sample_db True)"
proof -
  have g: "getOwnedDocument ''d1'' ''u2'' (sample_db True) =
      Inl (ActionError NOT_FOUND ''PDF document not found.'')"
    by (simp add: getOwnedDocument_def store_defs first_row_def sample_defs)
  have out: "updateDocument signed_out 500
     \<lparr>ud_id = ''d1'', ud_title = None, ud_sourceType = None, ud_sourceUrl = None,
      ud_pageCount = None, ud_lastOpenedAt = None\<rparr> (sample_db True) =
     (Inl ActionInputError, sample_db True) \<and>
   updateAnnotation signed_out 500
     \<lparr>ua_id = ''a1'', ua_documentId = ''d1'', ua_pageId = None, ua_annotationType = None,
      ua_selectionJson = None, ua_comment = None, ua_color = None\<rparr> (sample_db True) =
     (Inl ActionInputError, sample_db True)"
    by (rule update_without_patch_rejected) simp_all
  have other: "updateDocument (signed_in ''u2'') 500
     \<lparr>ud_id = ''d1'', ud_title = None, ud_sourceType = None, ud_sourceUrl = None,
      ud_pageCount = None, ud_lastOpenedAt = None\<rparr> (sample_db True) =
     (Inl ActionInputError, sample_db True) \<and>
   updateAnnotation (signed_in ''u2'') 500
     \<lparr>ua_id = ''a1'', ua_documentId = ''d1'', ua_pageId = None, ua_annotationType = None,
      ua_selectionJson = None, ua_comment = None, ua_color = None\<rparr> (sample_db True) =
     (Inl ActionInputError, sample_db True)"
    by (rule update_without_patch_rejected) simp_all
  from g out other requireUser_signed_out show ?thesis by simp
qed

text \<open>
  C5. In a store whose ids are primary keys, a successful updateAnnotation that supplies
  only \<open>comment\<close> finds an annotation with the given id on the given document (a document
  the signed-in caller owns), returns that row with \<open>comment\<close> set to the supplied value and
  \<open>updatedAt\<close> set to the time of the call, and writes exactly that row back: its
  \<open>annotationType\<close>, \<open>selectionJson\<close>, \<open>color\<close>, \<open>pageId\<close> and every other column are as
  before, and every other row and table is untouched.
\<close>

theorem updateAnnotation_comment_only:
  assumes pk: "primary_keys s"
    and run: "updateAnnotation context now input s = (Inr r, s')"
    and only: "ua_comment input = Some c" "ua_pageId input = None"
      "ua_annotationType input = None" "ua_selectionJson input = None" "ua_color input = None"
  shows "\<exists>a\<in>set (PdfAnnotations s).
     ann_id a = ua_id input \<and> ann_documentId a = ua_documentId input \<and>
     (\<exists>u doc. requireUser context = Inr u \<and>
        getOwnedDocument (ann_documentId a) (user_id u) s = Inr doc) \<and>
     r = Some (a\<lparr>ann_comment := Some c, ann_updatedAt := now\<rparr>) \<and>
     s' = s\<lparr>PdfAnnotations :=
            map (\<lambda>x. if x = a then a\<lparr>ann_comment := Some c, ann_updatedAt := now\<rparr> else x)
              (PdfAnnotations s)\<rparr>"
proof -
  have patch: "updateAnnotation_set now input a = a\<lparr>ann_comment := Some c, ann_updatedAt := now\<rparr>"
    for a
    using only by (simp add: updateAnnotation_set_def patch_field_def)
  from updateAnnotation_row [OF pk run] obtain u doc a where
    u: "requireUser context = Inr u" and
    doc: "getOwnedDocument (ua_documentId input) (user_id u) s = Inr doc" and
    mem: "a \<in> set (PdfAnnotations s)" and
    id: "ann_id a = ua_id input" and did: "ann_documentId a = ua_documentId input" and
    r: "r = Some (updateAnnotation_set now input a)" and
    s': "s' = s\<lparr>PdfAnnotations :=
            map (\<lambda>x. if x = a then updateAnnotation_set now input a else x)
              (PdfAnnotations s)\<rparr>"
    by blast
  from u doc did have owner: "\<exists>u doc. requireUser context = Inr u \<and>
        getOwnedDocument (ann_documentId a) (user_id u) s = Inr doc"
    by auto
  show ?thesis
  proof (rule bexI [OF _ mem], intro conjI)
    show "ann_id a = ua_id input" by (rule id)
    show "ann_documentId a = ua_documentId input" by (rule did)
    show "\<exists>u doc. requireUser context = Inr u \<and>
        getOwnedDocument (ann_documentId a) (user_id u) s = Inr doc" by (rule owner)
    show "r = Some (a\<lparr>ann_comment := Some c, ann_updatedAt := now\<rparr>)"
      using r by (simp only: patch)
    show "s' = s\<lparr>PdfAnnotations :=
            map (\<lambda>x. if x = a then a\<lparr>ann_comment := Some c, ann_updatedAt := now\<rparr> else x)
              (PdfAnnotations s)\<rparr>"
      using s' by (simp only: patch)
  qed
qed

theorem updateAnnotation_comment_only_witness:
  "primary_keys (sample_db True) \<and>
   fst (updateAnnotation (signed_in ''u1'') 500
          \<lparr>ua_id = ''a1'', ua_documentId = ''d1'', ua_pageId = None, ua_annotationType = None,
           ua_selectionJson = None, ua_comment = Some ''note'', ua_color = None\<rparr>
          (sample_db True)) =
     Inr (Some \<lparr>ann_id = ''a1'', ann_documentId = ''d1'', ann_pageId = Some ''p1'',
                ann_userId = ''u1'', ann_annotationType = Some ''note'',
                ann_selectionJson = Some ''{}'', ann_comment = Some ''note'',
                ann_color = Some ''red'', ann_createdAt = 140, ann_updatedAt = 500\<rparr>) \<and>
   (\<exists>a\<in>set (PdfAnnotations (sample_db True)).
      ann_id a = ''a1'' \<and> ann_documentId a = ''d1'' \<and>
      (\<exists>u doc. requireUser (signed_in ''u1'') = Inr u \<and>
         getOwnedDocument (ann_documentId a) (user_id u) (sample_db True) = Inr doc) \<and>
      Some \<lparr>ann_id = ''a1'', ann_documentId = ''d1'', ann_pageId = Some ''p1'',
         ann_userId = ''u1'', ann_annotationType = Some ''note'',
         ann_selectionJson = Some ''{}'', ann_comment = Some ''note'',
         ann_color = Some ''red'', ann_createdAt = 140, ann_updatedAt = 500\<rparr> =
        Some (a\<lparr>ann_comment := Some ''note'', ann_updatedAt := 500\<rparr>) \<and>
      snd (updateAnnotation (signed_in ''u1'') 500
          \<lparr>ua_id = ''a1'', ua_documentId = ''d1'', ua_pageId = None, ua_annotationType = None,
           ua_selectionJson = None, ua_comment = Some ''note'', ua_color = None\<rparr>
          (sample_db True)) =
        (sample_db True)\<lparr>PdfAnnotations :=
            map (\<lambda>x. if x = a then a\<lparr>ann_comment := Some ''note'', ann_updatedAt := 500\<rparr> else x)
              (PdfAnnotations (sample_db True))\<rparr>)"
proof -
  let ?input = "\<lparr>ua_id = ''a1'', ua_documentId = ''d1'', ua_pageId = None, ua_annotationType = None,
           ua_selectionJson = None, ua_comment = Some ''note'', ua_color = None\<rparr>"
  let ?row = "\<lparr>ann_id = ''a1'', ann_documentId = ''d1'', ann_pageId = Some ''p1'',
                ann_userId = ''u1'', ann_annotationType = Some ''note'',
                ann_selectionJson = Some ''{}'', ann_comment = Some ''note'',
                ann_color = Some ''red'', ann_createdAt = 140, ann_updatedAt = 500\<rparr>"
  have pk: "primary_keys (sample_db True)"
    by (rule primary_keys_sample)
  have res: "fst (updateAnnotation (signed_in ''u1'') 500 ?input (sample_db True)) = Inr (Some ?row)"
    by (simp add: updateAnnotation_def updateAnnotation_schema_def requireUser_signed_in
        getOwnedDocument_def store_defs first_row_def db_update_def references_opt_ok_def
        updateAnnotation_set_def patch_field_def sample_db_def sample_documents_def
        sample_annotations_def)
  then have run: "updateAnnotation (signed_in ''u1'') 500 ?input (sample_db True) =
      (Inr (Some ?row), snd (updateAnnotation (signed_in ''u1'') 500 ?input (sample_db True)))"
    by (metis prod.collapse)
  have only: "ua_comment ?input = Some ''note''" "ua_pageId ?input = None"
    "ua_annotationType ?input = None" "ua_selectionJson ?input = None" "ua_color ?input = None"
    by simp_all
  note concl = updateAnnotation_comment_only [OF pk run only]
  have ids: "ua_id ?input = ''a1''" "ua_documentId ?input = ''d1''"
    by simp_all
  from pk res concl [unfolded ids] show ?thesis
    by (intro conjI)
qed

text \<open>
  C6. Once the input passes the schema, the caller is signed in and the ownership check on
  \<open>documentId\<close> passes, deleteAnnotation deletes the annotations matching \<open>id\<close> and
  \<open>documentId\<close>, and fails with \<open>NOT_FOUND\<close> exactly when the number of deleted rows is zero
  (there is no fetch before the delete); otherwise it succeeds and the matching rows are
  gone. A second call with the same input, on the store the first call left, fails with
  \<open>NOT_FOUND\<close> "Annotation not found." whether the first call succeeded or not.
\<close>

theorem deleteAnnotation_post_hoc:
  assumes user: "requireUser context = Inr u"
    and schema: "deleteAnnotation_schema input"
    and owned: "getOwnedDocument (da_documentId input) (user_id u) s = Inr doc"
  shows "deleteAnnotation context input s =
     (if length (filter (\<lambda>a. ann_id a = da_id input \<and> ann_documentId a = da_documentId input)
           (PdfAnnotations s)) = 0
      then (Inl (ActionError NOT_FOUND ''Annotation not found.''), s)
      else (Inr (),
            s\<lparr>PdfAnnotations :=
                filter (\<lambda>a. \<not> (ann_id a = da_id input \<and> ann_documentId a = da_documentId input))
                  (PdfAnnotations s)\<rparr>)) \<and>
   deleteAnnotation context input (snd (deleteAnnotation context input s)) =
     (Inl (ActionError NOT_FOUND ''Annotation not found.''),
      snd (deleteAnnotation context input s))"
proof -
  let ?m = "\<lambda>a. ann_id a = da_id input \<and> ann_documentId a = da_documentId input"
  let ?s' = "s\<lparr>PdfAnnotations := filter (\<lambda>a. \<not> ?m a) (PdfAnnotations s)\<rparr>"
  have first: "deleteAnnotation context input s =
     (if filter ?m (PdfAnnotations s) = []
      then (Inl (ActionError NOT_FOUND ''Annotation not found.''), s) else (Inr (), ?s'))"
    by (rule deleteAnnotation_owned [OF user schema owned])
  have second: "deleteAnnotation context input t =
      (Inl (ActionError NOT_FOUND ''Annotation not found.''), t)"
    if t: "t = snd (deleteAnnotation context input s)" for t
  proof (cases "filter ?m (PdfAnnotations s) = []")
    case True
    with first t have "t = s" by simp
    with first True show ?thesis by simp
  next
    case False
    with first t have t': "t = ?s'" by simp
    have "getOwnedDocument (da_documentId input) (user_id u) ?s' = Inr doc"
      using owned by simp
    from deleteAnnotation_owned [OF user schema this] t' show ?thesis
      by (simp add: filter_twice_empty filter_empty_conv)
  qed
  from first second [OF refl] show ?thesis by (simp only: length_0_conv simp_thms)
qed

theorem deleteAnnotation_post_hoc_witness:
  "requireUser (signed_in ''u1'') = Inr \<lparr>user_id = ''u1''\<rparr> \<and>
   getOwnedDocument ''d1'' ''u1'' (sample_db True) = Inr (hd sample_documents) \<and>
   deleteAnnotation (signed_in ''u1'') \<lparr>da_id = ''a1'', da_documentId = ''d1''\<rparr> (sample_db True) =
     (Inr (), (sample_db True)\<lparr>PdfAnnotations := tl sample_annotations\<rparr>) \<and>
   deleteAnnotation (signed_in ''u1'') \<lparr>da_id = ''a1'', da_documentId = ''d1''\<rparr>
       ((sample_db True)\<lparr>PdfAnnotations := tl sample_annotations\<rparr>) =
     (Inl (ActionError NOT_FOUND ''Annotation not found.''),
      (sample_db True)\<lparr>PdfAnnotations := tl sample_annotations\<rparr>)"
proof -
  have user: "requireUser (signed_in ''u1'') = Inr \<lparr>user_id = ''u1''\<rparr>"
    by (rule requireUser_signed_in)
  have schema: "deleteAnnotation_schema \<lparr>da_id = ''a1'', da_documentId = ''d1''\<rparr>"
    by (simp add: deleteAnnotation_schema_def)
  have owned: "getOwnedDocument (da_documentId \<lparr>da_id = ''a1'', da_documentId = ''d1''\<rparr>)
      (user_id \<lparr>user_id = ''u1''\<rparr>) (sample_db True) = Inr (hd sample_documents)"
    by (simp add: getOwnedDocument_def store_defs first_row_def sample_defs)
  have owned': "getOwnedDocument ''d1'' ''u1'' (sample_db True) = Inr (hd sample_documents)"
    using owned by simp
  note run = deleteAnnotation_post_hoc [OF user schema owned]
  have first: "deleteAnnotation (signed_in ''u1'') \<lparr>da_id = ''a1'', da_documentId = ''d1''\<rparr>
       (sample_db True) = (Inr (), (sample_db True)\<lparr>PdfAnnotations := tl sample_annotations\<rparr>)"
    using run [THEN conjunct1] by (simp add: sample_db_def sample_annotations_def)
  have second: "deleteAnnotation (signed_in ''u1'') \<lparr>da_id = ''a1'', da_documentId = ''d1''\<rparr>
         ((sample_db True)\<lparr>PdfAnnotations := tl sample_annotations\<rparr>) =
       (Inl (ActionError NOT_FOUND ''Annotation not found.''),
        (sample_db True)\<lparr>PdfAnnotations := tl sample_annotations\<rparr>)"
    using run [THEN conjunct2] unfolding first by (simp only: snd_conv)
  from user owned' first second show ?thesis by (simp only: simp_thms)
qed






text \<open>
  C9. In a store whose ids are primary keys, a successful updateAnnotation returns a row of
  the updated table that agrees with the annotation it found in \<open>id\<close>, \<open>documentId\<close>, \<open>userId\<close>
  and \<open>createdAt\<close>; indeed these four columns of the whole annotations table are the same
  before and after the call.
\<close>

theorem updateAnnotation_identity:
  assumes pk: "primary_keys s"
    and run: "updateAnnotation context now input s = (Inr r, s')"
  shows "\<exists>a\<in>set (PdfAnnotations s). \<exists>a'\<in>set (PdfAnnotations s').
     r = Some a' \<and> ann_id a = ua_id input \<and> ann_documentId a = ua_documentId input \<and>
     ann_id a' = ann_id a \<and> ann_documentId a' = ann_documentId a \<and>
     ann_userId a' = ann_userId a \<and> ann_createdAt a' = ann_createdAt a \<and>
     map ann_id (PdfAnnotations s') = map ann_id (PdfAnnotations s) \<and>
     map ann_documentId (PdfAnnotations s') = map ann_documentId (PdfAnnotations s) \<and>
     map ann_userId (PdfAnnotations s') = map ann_userId (PdfAnnotations s) \<and>
     map ann_createdAt (PdfAnnotations s') = map ann_createdAt (PdfAnnotations s)"
proof -
  let ?set = "updateAnnotation_set now input"
  from updateAnnotation_row [OF pk run] obtain u doc a where
    mem: "a \<in> set (PdfAnnotations s)" and
    id: "ann_id a = ua_id input" and did: "ann_documentId a = ua_documentId input" and
    r: "r = Some (?set a)" and
    s': "s' = s\<lparr>PdfAnnotations :=
            map (\<lambda>x. if x = a then ?set a else x) (PdfAnnotations s)\<rparr>"
    by blast
  from s' have rows: "PdfAnnotations s' = map (\<lambda>x. if x = a then ?set a else x) (PdfAnnotations s)"
    by simp
  have keep: "ann_id (?set x) = ann_id x" "ann_documentId (?set x) = ann_documentId x"
    "ann_userId (?set x) = ann_userId x" "ann_createdAt (?set x) = ann_createdAt x" for x
    by (simp_all add: updateAnnotation_set_def)
  from mem have mem': "?set a \<in> set (PdfAnnotations s')"
    unfolding rows by (simp add: image_iff)
  have col: "f (?set a) = f a \<Longrightarrow> map f (PdfAnnotations s') = map f (PdfAnnotations s)"
    for f :: "PdfAnnotation \<Rightarrow> string"
    unfolding rows by (rule map_column_kept)
  have col_date: "f (?set a) = f a \<Longrightarrow> map f (PdfAnnotations s') = map f (PdfAnnotations s)"
    for f :: "PdfAnnotation \<Rightarrow> Date"
    unfolding rows by (rule map_column_kept)
  show ?thesis
  proof (rule bexI [OF _ mem], rule bexI [OF _ mem'], intro conjI)
    show "r = Some (?set a)" by (rule r)
    show "ann_id a = ua_id input" by (rule id)
    show "ann_documentId a = ua_documentId input" by (rule did)
    show "ann_id (?set a) = ann_id a" by (rule keep)
    show "ann_documentId (?set a) = ann_documentId a" by (rule keep)
    show "ann_userId (?set a) = ann_userId a" by (rule keep)
    show "ann_createdAt (?set a) = ann_createdAt a" by (rule keep)
    show "map ann_id (PdfAnnotations s') = map ann_id (PdfAnnotations s)"
      by (rule col) (rule keep)
    show "map ann_documentId (PdfAnnotations s') = map ann_documentId (PdfAnnotations s)"
      by (rule col) (rule keep)
    show "map ann_userId (PdfAnnotations s') = map ann_userId (PdfAnnotations s)"
      by (rule col) (rule keep)
    show "map ann_createdAt (PdfAnnotations s') = map ann_createdAt (PdfAnnotations s)"
      by (rule col_date) (rule keep)
  qed
qed

theorem updateAnnotation_identity_witness:
  "primary_keys (sample_db True) \<and>
   fst (updateAnnotation (signed_in ''u1'') 600
          \<lparr>ua_id = ''a2'', ua_documentId = ''d1'', ua_pageId = Some ''p1'',
           ua_annotationType = Some ''highlight'', ua_selectionJson = None, ua_comment = None,
           ua_color = Some ''blue''\<rparr>
          (sample_db True)) =
     Inr (Some \<lparr>ann_id = ''a2'', ann_documentId = ''d1'', ann_pageId = Some ''p1'',
                ann_userId = ''u2'', ann_annotationType = Some ''highlight'',
                ann_selectionJson = None, ann_comment = None,
                ann_color = Some ''blue'', ann_createdAt = 150, ann_updatedAt = 600\<rparr>) \<and>
   (\<exists>a\<in>set (PdfAnnotations (sample_db True)).
    \<exists>a'\<in>set (PdfAnnotations (snd (updateAnnotation (signed_in ''u1'') 600
          \<lparr>ua_id = ''a2'', ua_documentId = ''d1'', ua_pageId = Some ''p1'',
           ua_annotationType = Some ''highlight'', ua_selectionJson = None, ua_comment = None,
           ua_color = Some ''blue''\<rparr>
          (sample_db True)))).
      Some \<lparr>ann_id = ''a2'', ann_documentId = ''d1'', ann_pageId = Some ''p1'',
                ann_userId = ''u2'', ann_annotationType = Some ''highlight'',
                ann_selectionJson = None, ann_comment = None,
                ann_color = Some ''blue'', ann_createdAt = 150, ann_updatedAt = 600\<rparr> = Some a' \<and>
      ann_id a = ''a2'' \<and> ann_documentId a = ''d1'' \<and>
      ann_id a' = ann_id a \<and> ann_documentId a' = ann_documentId a \<and>
      ann_userId a' = ann_userId a \<and> ann_createdAt a' = ann_createdAt a)"
proof -
  let ?input = "\<lparr>ua_id = ''a2'', ua_documentId = ''d1'', ua_pageId = Some ''p1'',
           ua_annotationType = Some ''highlight'', ua_selectionJson = None, ua_comment = None,
           ua_color = Some ''blue''\<rparr>"
  let ?row = "\<lparr>ann_id = ''a2'', ann_documentId = ''d1'', ann_pageId = Some ''p1'',
                ann_userId = ''u2'', ann_annotationType = Some ''highlight'',
                ann_selectionJson = None, ann_comment = None,
                ann_color = Some ''blue'', ann_createdAt = 150, ann_updatedAt = 600\<rparr>"
  let ?s' = "snd (updateAnnotation (signed_in ''u1'') 600 ?input (sample_db True))"
  have pk: "primary_keys (sample_db True)"
    by (rule primary_keys_sample)
  have res: "fst (updateAnnotation (signed_in ''u1'') 600 ?input (sample_db True)) = Inr (Some ?row)"
    by (simp add: updateAnnotation_def updateAnnotation_schema_def requireUser_signed_in
        getOwnedPage_def getOwnedDocument_def thrown_def store_defs first_row_def
        db_update_def references_opt_ok_def references_ok_def
        updateAnnotation_set_def patch_field_def sample_db_def sample_documents_def
        sample_pages_def sample_annotations_def)
  then have run: "updateAnnotation (signed_in ''u1'') 600 ?input (sample_db True) =
      (Inr (Some ?row), ?s')"
    by (metis prod.collapse)
  have ids: "ua_id ?input = ''a2''" "ua_documentId ?input = ''d1''"
    by simp_all
  from updateAnnotation_identity [OF pk run, unfolded ids]
  obtain a a' where "a \<in> set (PdfAnnotations (sample_db True))" "a' \<in> set (PdfAnnotations ?s')"
    "Some ?row = Some a' \<and> ann_id a = ''a2'' \<and> ann_documentId a = ''d1'' \<and>
      ann_id a' = ann_id a \<and> ann_documentId a' = ann_documentId a \<and>
      ann_userId a' = ann_userId a \<and> ann_createdAt a' = ann_createdAt a"
    by (elim bexE conjE) (rule that, assumption+, intro conjI, assumption+)
  then have "\<exists>a\<in>set (PdfAnnotations (sample_db True)). \<exists>a'\<in>set (PdfAnnotations ?s').
      Some ?row = Some a' \<and> ann_id a = ''a2'' \<and> ann_documentId a = ''d1'' \<and>
      ann_id a' = ann_id a \<and> ann_documentId a' = ann_documentId a \<and>
      ann_userId a' = ann_userId a \<and> ann_createdAt a' = ann_createdAt a"
    by (intro bexI)
  with pk res show ?thesis
    by (intro conjI)
qed

text \<open>
  C10. Every item returned by listPages is a row of the pages table whose \<open>documentId\<close> is the
  requested one, and every item returned by listAnnotations is a row of the annotations
  table whose \<open>documentId\<close> is the requested one.
\<close>

theorem listing_of_requested_document:
  "(listPages context documentId s = (Inr l, s') \<longrightarrow>
      (\<forall>p\<in>set (items l). page_documentId p = documentId \<and> p \<in> set (PdfPages s))) \<and>
   (listAnnotations context' documentId' t = (Inr m, t') \<longrightarrow>
      (\<forall>a\<in>set (items m). ann_documentId a = documentId' \<and> a \<in> set (PdfAnnotations t)))"
proof (intro conjI impI)
  assume "listPages context documentId s = (Inr l, s')"
  from listPages_Inr [OF this]
  show "\<forall>p\<in>set (items l). page_documentId p = documentId \<and> p \<in> set (PdfPages s)"
    by simp
next
  assume "listAnnotations context' documentId' t = (Inr m, t')"
  from listAnnotations_Inr [OF this]
  show "\<forall>a\<in>set (items m). ann_documentId a = documentId' \<and> a \<in> set (PdfAnnotations t)"
    by simp
qed

theorem listing_of_requested_document_witness:
  "listPages (signed_in ''u1'') ''d1'' (sample_db True) =
     (Inr \<lparr>items = [sample_pages ! 0], total = 1\<rparr>, sample_db True) \<and>
   page_documentId (sample_pages ! 0) = ''d1'' \<and>
   page_documentId (sample_pages ! 1) = ''d2'' \<and>
   listAnnotations (signed_in ''u1'') ''d1'' (sample_db True) =
     (Inr \<lparr>items = [sample_annotations ! 0, sample_annotations ! 1], total = 2\<rparr>,
      sample_db True) \<and>
   ann_documentId (sample_annotations ! 0) = ''d1'' \<and>
   ann_documentId (sample_annotations ! 1) = ''d1'' \<and>
   ann_documentId (sample_annotations ! 2) = ''d2''"
proof -
  have pages: "listPages (signed_in ''u1'') ''d1'' (sample_db True) =
     (Inr \<lparr>items = [sample_pages ! 0], total = 1\<rparr>, sample_db True)"
    by (simp add: listPages_def documentId_schema_def requireUser_signed_in
        getOwnedDocument_def store_defs first_row_def sample_db_def sample_documents_def
        sample_pages_def)
  have annotations: "listAnnotations (signed_in ''u1'') ''d1'' (sample_db True) =
     (Inr \<lparr>items = [sample_annotations ! 0, sample_annotations ! 1], total = 2\<rparr>,
      sample_db True)"
    by (simp add: listAnnotations_def documentId_schema_def requireUser_signed_in
        getOwnedDocument_def store_defs first_row_def sample_db_def sample_documents_def
        sample_annotations_def)
  from listing_of_requested_document [THEN conjunct1, rule_format, OF pages]
  have p: "page_documentId (sample_pages ! 0) = ''d1''"
    by simp
  from listing_of_requested_document [THEN conjunct2, rule_format, OF annotations]
  have a: "ann_documentId (sample_annotations ! 0) = ''d1''"
    "ann_documentId (sample_annotations ! 1) = ''d1''"
    by simp_all
  have other: "page_documentId (sample_pages ! 1) = ''d2''"
    "ann_documentId (sample_annotations ! 2) = ''d2''"
    by (simp_all add: sample_pages_def sample_annotations_def)
  from pages annotations p a other show ?thesis by (simp only: simp_thms)
qed

end
